theory Spec2Isabelle
  imports Main
begin

section \<open>Data model\<close>

text \<open>
  The three relations of \<^verbatim>\<open>create_tables\<close> (backend.py) and the classes of
  \<^verbatim>\<open>models/\<close>. A \<^verbatim>\<open>date\<close> is its proleptic Gregorian ordinal
  (\<^verbatim>\<open>date.toordinal()\<close>, 1 for 0001-01-01 and 3652059 for 9999-12-31), a
  \<^verbatim>\<open>time\<close> the microseconds since midnight, a \<^verbatim>\<open>datetime\<close> the ordinal
  times the microseconds of a day plus the time. The bookings relation has no duration
  column, and the class \<^verbatim>\<open>Booking\<close> has no duration attribute. The status of a
  booking is a string, as the class annotates it.
\<close>

type_synonym date = int
type_synonym time = int
type_synonym datetime = int

record user =
  u_id :: int
  username :: string
  email :: string
  full_name :: "string option"
  phone :: "string option"
  role :: string
  is_active :: bool
  u_created_at :: datetime
  u_updated_at :: datetime

record table =
  t_id :: int
  table_number :: string
  capacity :: int
  location :: "string option"
  is_available :: bool
  description :: "string option"
  t_created_at :: datetime
  t_updated_at :: datetime

record booking =
  b_id :: int
  user_id :: int
  table_id :: int
  booking_date :: date
  booking_time :: time
  guests_count :: int
  status :: string
  b_notes :: "string option"
  created_at :: "datetime option"
  updated_at :: "datetime option"

text \<open>
  The store: the rows of each relation in insertion order, and the sequence behind
  \<^verbatim>\<open>bookings.id SERIAL\<close>.
\<close>

record store =
  users :: "user list"
  tables :: "table list"
  bookings :: "booking list"
  bookings_id_seq :: int

text \<open>
  Every domain failure of backend.py is a \<^verbatim>\<open>ValueError\<close>; the messages are told
  apart by their text, kept here as the template and its arguments. psycopg2 raises a
  \<^verbatim>\<open>ValueError\<close> of its own for a string that holds a NUL character. The datetime
  arithmetic of Python raises \<^verbatim>\<open>OverflowError\<close>. A statement the store rejects
  surfaces as psycopg2's \<^verbatim>\<open>DataError\<close> (a value out of the column's range),
  \<^verbatim>\<open>IntegrityError\<close> (primary key, foreign key, NOT NULL) or
  \<^verbatim>\<open>ProgrammingError\<close> (a statement that does not parse or names no column),
  after \<^verbatim>\<open>get_cursor\<close> has rolled the transaction back.
\<close>

datatype table_ref = Number string | Id int

datatype message =
  TableNotFound int
| TableUnavailable string
| TableAlreadyBooked table_ref date time
| NulCharacter

datatype error =
  ValueError message
| OverflowError
| DataError
| IntegrityError
| ProgrammingError

section \<open>Availability check\<close>

definition combine :: "date \<Rightarrow> time \<Rightarrow> datetime" where
  "combine d t = d * 86400000000 + t"

text \<open>
  \<^verbatim>\<open>timedelta(hours=h)\<close> raises when the days it holds leave
  \<open>-999999999 .. 999999999\<close>; adding it to a datetime raises when the sum leaves
  \<^verbatim>\<open>datetime.min .. datetime.max\<close>.
\<close>

definition timedelta :: "int \<Rightarrow> error + int" where
  "timedelta h =
     (if - 999999999 \<le> h div 24 \<and> h div 24 \<le> 999999999 then Inr (h * 3600000000)
      else Inl OverflowError)"

definition datetime_add :: "datetime \<Rightarrow> int \<Rightarrow> error + datetime" where
  "datetime_add x delta =
     (if combine 1 0 \<le> x + delta \<and> x + delta \<le> combine 3652059 86399999999
      then Inr (x + delta) else Inl OverflowError)"

text \<open>\<^verbatim>\<open>INTERVAL 'n hours'\<close> of the store, in microseconds.\<close>

definition hours :: "int \<Rightarrow> int" where
  "hours h = h * 3600000000"

definition get_user_by_id :: "store \<Rightarrow> int \<Rightarrow> user option" where
  "get_user_by_id s uid = find (\<lambda>u. u_id u = uid) (users s)"

definition get_table_by_id :: "store \<Rightarrow> int \<Rightarrow> table option" where
  "get_table_by_id s tid = find (\<lambda>t. t_id t = tid) (tables s)"

text \<open>The WHERE clause of the overlap query, with its parameters in the query's order.\<close>

definition overlap_where :: "int \<Rightarrow> date \<Rightarrow> datetime \<Rightarrow> datetime \<Rightarrow> booking \<Rightarrow> bool" where
  "overlap_where tid d end_datetime start_datetime b \<longleftrightarrow>
     table_id b = tid \<and> booking_date b = d \<and> status b \<noteq> ''cancelled'' \<and>
     (combine (booking_date b) (booking_time b) < end_datetime \<and>
      combine (booking_date b) (booking_time b) + hours 2 > start_datetime)"

definition count_conflicts :: "store \<Rightarrow> int \<Rightarrow> date \<Rightarrow> datetime \<Rightarrow> datetime \<Rightarrow> nat" where
  "count_conflicts s tid d end_datetime start_datetime =
     length (filter (overlap_where tid d end_datetime start_datetime) (bookings s))"

definition check_table_availability ::
  "store \<Rightarrow> int \<Rightarrow> date \<Rightarrow> time \<Rightarrow> int \<Rightarrow> error + bool" where
  "check_table_availability s tid d t duration_hours =
     (case get_table_by_id s tid of
        None \<Rightarrow> Inl (ValueError (TableNotFound tid))
      | Some tb \<Rightarrow>
          if \<not> is_available tb then Inl (ValueError (TableUnavailable (table_number tb)))
          else
            let start_datetime = combine d t in
            case timedelta duration_hours of
              Inl e \<Rightarrow> Inl e
            | Inr delta \<Rightarrow>
                (case datetime_add start_datetime delta of
                   Inl e \<Rightarrow> Inl e
                 | Inr end_datetime \<Rightarrow>
                     Inr (count_conflicts s tid d end_datetime start_datetime = 0)))"

section \<open>Creating a booking\<close>

text \<open>
  \<^verbatim>\<open>str.strip()\<close> removes the leading and trailing whitespace of a string. A
  \<^typ>\<open>char\<close> is the code point of a character below 256, where Python's whitespace is
  9 to 13, 28 to 32, 133 and 160.
\<close>

definition is_space :: "char \<Rightarrow> bool" where
  "is_space c \<longleftrightarrow> (of_char c :: nat) \<in> set [9, 10, 11, 12, 13, 28, 29, 30, 31, 32, 133, 160]"

definition strip :: "string \<Rightarrow> string" where
  "strip n = rev (dropWhile is_space (rev (dropWhile is_space n)))"

text \<open>
  What the store and its driver accept. psycopg2 refuses a string with a NUL character
  before anything is sent. An \<^verbatim>\<open>INTEGER\<close> column holds 32 bits. A
  \<^verbatim>\<open>VARCHAR(20)\<close> column takes a longer string only when the excess is spaces,
  and then cuts it to 20 characters.
\<close>

definition has_nul :: "string \<Rightarrow> bool" where
  "has_nul x \<longleftrightarrow> CHR 0x00 \<in> set x"

definition int4 :: "int \<Rightarrow> bool" where
  "int4 i \<longleftrightarrow> - 2147483648 \<le> i \<and> i \<le> 2147483647"

definition varchar20 :: "string \<Rightarrow> error + string" where
  "varchar20 x =
     (if length x \<le> 20 then Inr x
      else if list_all (\<lambda>c. c = CHR '' '') (drop 20 x) then Inr (take 20 x)
      else Inl DataError)"

text \<open>
  The INSERT of \<^verbatim>\<open>create_booking\<close>, with the Booking the function builds from its
  own arguments and the identity and timestamps the store returns. A value the driver or
  the store cannot take is refused before the sequence is touched; then the store takes
  the identity from the sequence (which advances whether or not the row is kept), stamps
  both timestamps with its clock \<open>now\<close>, and rejects the row when the primary key or one
  of the two foreign keys of \<^verbatim>\<open>create_tables\<close> is violated. The statement has no
  duration column. The row kept is the Booking returned, but for a status cut to the
  width of its column.
\<close>

definition insert_booking ::
  "store \<Rightarrow> datetime \<Rightarrow> int \<Rightarrow> int \<Rightarrow> date \<Rightarrow> time \<Rightarrow> int \<Rightarrow> string \<Rightarrow> string
     \<Rightarrow> (error + booking) \<times> store" where
  "insert_booking s now uid tid d t guests st n =
     (if has_nul st \<or> has_nul n then (Inl (ValueError NulCharacter), s)
      else if \<not> int4 uid \<or> \<not> int4 tid \<or> \<not> int4 guests \<or> \<not> int4 (bookings_id_seq s)
      then (Inl DataError, s)
      else
        case varchar20 st of
          Inl e \<Rightarrow> (Inl e, s)
        | Inr stored_status \<Rightarrow>
            let new_id = bookings_id_seq s;
                s1 = s\<lparr>bookings_id_seq := new_id + 1\<rparr>;
                returned = \<lparr>b_id = new_id, user_id = uid, table_id = tid, booking_date = d,
                   booking_time = t, guests_count = guests, status = st, b_notes = Some n,
                   created_at = Some now, updated_at = Some now\<rparr>
            in if find (\<lambda>b. b_id b = new_id) (bookings s) \<noteq> None
                  \<or> get_user_by_id s uid = None \<or> get_table_by_id s tid = None
               then (Inl IntegrityError, s1)
               else (Inr returned,
                     s1\<lparr>bookings := bookings s @ [returned\<lparr>status := stored_status\<rparr>]\<rparr>))"

definition create_booking ::
  "store \<Rightarrow> datetime \<Rightarrow> int \<Rightarrow> int \<Rightarrow> date \<Rightarrow> time \<Rightarrow> int \<Rightarrow> string \<Rightarrow> string option \<Rightarrow> int
     \<Rightarrow> (error + booking) \<times> store" where
  "create_booking s now uid tid d t guests st n duration_hours =
     (case check_table_availability s tid d t duration_hours of
        Inl e \<Rightarrow> (Inl e, s)
      | Inr False \<Rightarrow>
          (Inl (ValueError (TableAlreadyBooked
                  (case get_table_by_id s tid of
                     Some tb \<Rightarrow> Number (table_number tb)
                   | None \<Rightarrow> Id tid) d t)), s)
      | Inr True \<Rightarrow>
          insert_booking s now uid tid d t guests st
            (case n of None \<Rightarrow> [] | Some x \<Rightarrow> strip x))"

section \<open>Updating a booking\<close>

text \<open>
  The keyword arguments of \<^verbatim>\<open>update_booking\<close> are a dictionary from any string to
  any value: the key and value pairs in the dictionary's order. The values are those of
  the relation's columns: \<^verbatim>\<open>None\<close>, integers, strings, booleans, dates, times and
  datetimes.
\<close>

datatype val =
  VNone
| VInt int
| VStr string
| VBool bool
| VDate date
| VTime time
| VDatetime datetime

text \<open>
  The function writes every key it keeps into the text of the statement, as
  \<^verbatim>\<open>key = %s\<close>, so the store reads the key as SQL. The store skips the whitespace
  around a name, folds an unquoted name to lower case and takes a name in double quotes
  as it is. A key that is not the name of a column of the relation, read this way, makes
  the statement fail. A key that carries more SQL than one name is outside this model.
\<close>

definition booking_columns :: "string list" where
  "booking_columns = [''id'', ''user_id'', ''table_id'', ''booking_date'', ''booking_time'',
     ''guests_count'', ''status'', ''notes'', ''created_at'', ''updated_at'']"

definition lower :: "char \<Rightarrow> char" where
  "lower c =
     (case map_of (zip ''ABCDEFGHIJKLMNOPQRSTUVWXYZ'' ''abcdefghijklmnopqrstuvwxyz'') c of
        Some l \<Rightarrow> l
      | None \<Rightarrow> c)"

definition sql_space :: "char \<Rightarrow> bool" where
  "sql_space c \<longleftrightarrow> c \<in> set [CHR 0x09, CHR 0x0A, CHR 0x0B, CHR 0x0C, CHR 0x0D, CHR '' '']"

definition sql_trim :: "string \<Rightarrow> string" where
  "sql_trim k = rev (dropWhile sql_space (rev (dropWhile sql_space k)))"

definition quoted :: "string \<Rightarrow> bool" where
  "quoted k \<longleftrightarrow> 2 \<le> length k \<and> hd k = CHR 0x22 \<and> last k = CHR 0x22"

definition sql_column :: "string \<Rightarrow> string option" where
  "sql_column key =
     (let k = sql_trim key;
          name = (if quoted k then butlast (tl k) else map lower k)
      in if name \<in> set booking_columns then Some name else None)"

text \<open>
  The constants a column takes. A value of the column's own Python type is taken when it
  is in the column's range; \<^verbatim>\<open>None\<close> is a constant of every type. A value of
  another type is left to the casts of the store, which are not modelled: the model
  refuses it. The model takes the status as NOT NULL, as the class annotates it.
\<close>

definition int_columns :: "string list" where
  "int_columns = [''id'', ''user_id'', ''table_id'', ''guests_count'']"

fun typed :: "string \<Rightarrow> val \<Rightarrow> bool" where
  "typed c VNone \<longleftrightarrow> c \<noteq> ''status''"
| "typed c (VInt i) \<longleftrightarrow> c \<in> set int_columns"
| "typed c (VStr x) \<longleftrightarrow> c = ''status'' \<or> c = ''notes''"
| "typed c (VBool b) \<longleftrightarrow> False"
| "typed c (VDate d) \<longleftrightarrow> c = ''booking_date''"
| "typed c (VTime t) \<longleftrightarrow> c = ''booking_time''"
| "typed c (VDatetime x) \<longleftrightarrow> c = ''created_at'' \<or> c = ''updated_at''"

fun in_range :: "string \<Rightarrow> val \<Rightarrow> bool" where
  "in_range c (VInt i) \<longleftrightarrow> int4 i"
| "in_range c (VStr x) \<longleftrightarrow> c = ''status'' \<longrightarrow> \<not> isl (varchar20 x)"
| "in_range c v \<longleftrightarrow> True"

definition accepts :: "string \<Rightarrow> val \<Rightarrow> bool" where
  "accepts c v \<longleftrightarrow> (v = VNone \<or> typed c v) \<and> in_range c v"

definition nullable :: "string \<Rightarrow> bool" where
  "nullable c \<longleftrightarrow> c \<in> set [''notes'', ''created_at'', ''updated_at'']"

text \<open>One assignment of the SET clause, and the whole clause, on a row.\<close>

fun assign :: "string \<Rightarrow> val \<Rightarrow> booking \<Rightarrow> booking" where
  "assign c (VInt i) b =
     (if c = ''id'' then b\<lparr>b_id := i\<rparr>
      else if c = ''user_id'' then b\<lparr>user_id := i\<rparr>
      else if c = ''table_id'' then b\<lparr>table_id := i\<rparr>
      else if c = ''guests_count'' then b\<lparr>guests_count := i\<rparr>
      else b)"
| "assign c (VStr x) b =
     (if c = ''status'' then b\<lparr>status := take 20 x\<rparr>
      else if c = ''notes'' then b\<lparr>b_notes := Some x\<rparr>
      else b)"
| "assign c (VDate d) b = (if c = ''booking_date'' then b\<lparr>booking_date := d\<rparr> else b)"
| "assign c (VTime t) b = (if c = ''booking_time'' then b\<lparr>booking_time := t\<rparr> else b)"
| "assign c (VDatetime x) b =
     (if c = ''created_at'' then b\<lparr>created_at := Some x\<rparr>
      else if c = ''updated_at'' then b\<lparr>updated_at := Some x\<rparr>
      else b)"
| "assign c VNone b =
     (if c = ''notes'' then b\<lparr>b_notes := None\<rparr>
      else if c = ''created_at'' then b\<lparr>created_at := None\<rparr>
      else if c = ''updated_at'' then b\<lparr>updated_at := None\<rparr>
      else b)"
| "assign c (VBool x) b = b"

definition set_clause :: "(string \<times> val) list \<Rightarrow> booking \<Rightarrow> booking" where
  "set_clause cs b = fold (\<lambda>(c, v). assign c v) cs b"

definition columns_of :: "(string \<times> val) list \<Rightarrow> (string \<times> val) list" where
  "columns_of u = map (\<lambda>(k, v). (case sql_column k of Some c \<Rightarrow> c | None \<Rightarrow> k, v)) u"

text \<open>
  \<^verbatim>\<open>UPDATE bookings SET ... WHERE id = %s\<close>, returning \<^verbatim>\<open>rowcount > 0\<close>.
  The driver refuses a string with a NUL character. The store refuses the statement when
  a key names no column or two keys name the same column, and when a constant does not fit
  its column. With no row of that identity nothing is changed. Otherwise the store
  rejects the statement when it would leave NULL in a NOT NULL column, give two rows the
  same identity, or give a row a user or table reference that names no row.
\<close>

definition execute_update_bookings ::
  "store \<Rightarrow> int \<Rightarrow> (string \<times> val) list \<Rightarrow> (error + bool) \<times> store" where
  "execute_update_bookings s bid u =
     (if list_ex (\<lambda>(k, v). case v of VStr x \<Rightarrow> has_nul x | _ \<Rightarrow> False) u
      then (Inl (ValueError NulCharacter), s)
      else if list_ex (\<lambda>(k, v). sql_column k = None) u
              \<or> \<not> distinct (map (\<lambda>(k, v). sql_column k) u)
      then (Inl ProgrammingError, s)
      else if \<not> list_all (\<lambda>(c, v). accepts c v) (columns_of u) then (Inl DataError, s)
      else if find (\<lambda>b. b_id b = bid) (bookings s) = None then (Inr False, s)
      else if list_ex (\<lambda>(c, v). v = VNone \<and> \<not> nullable c) (columns_of u)
      then (Inl IntegrityError, s)
      else
        let new_rows = map (\<lambda>b. if b_id b = bid then set_clause (columns_of u) b else b)
                         (bookings s)
        in if list_ex (\<lambda>b. b_id b = bid \<and>
                 ((b_id (set_clause (columns_of u) b) \<noteq> b_id b
                     \<and> 1 < length (filter (\<lambda>x. b_id x = b_id (set_clause (columns_of u) b))
                                     new_rows)) \<or>
                  (user_id (set_clause (columns_of u) b) \<noteq> user_id b
                     \<and> get_user_by_id s (user_id (set_clause (columns_of u) b)) = None) \<or>
                  (table_id (set_clause (columns_of u) b) \<noteq> table_id b
                     \<and> get_table_by_id s (table_id (set_clause (columns_of u) b)) = None)))
               (bookings s)
           then (Inl IntegrityError, s)
           else (Inr True, s\<lparr>bookings := new_rows\<rparr>))"

definition update_booking ::
  "store \<Rightarrow> datetime \<Rightarrow> int \<Rightarrow> (string \<times> val) list \<Rightarrow> (error + bool) \<times> store" where
  "update_booking s now bid kwargs =
     (let update_data =
            filter (\<lambda>(k, v). k \<notin> set [''id'', ''created_at'', ''updated_at'']) kwargs
      in if update_data = [] then (Inr False, s)
         else
           let update_data =
                 map (\<lambda>(k, v).
                        if k = ''notes''
                        then (k, VStr (case v of VStr x \<Rightarrow> strip x | _ \<Rightarrow> []))
                        else (k, v))
                   update_data;
               update_data = update_data @ [(''updated_at'', VDatetime now)]
           in execute_update_bookings s bid update_data)"

text \<open>
  The update data \<^verbatim>\<open>update_booking\<close> sends when it sends any, and the row the
  UPDATE makes of a row.
\<close>

definition sent_data :: "datetime \<Rightarrow> (string \<times> val) list \<Rightarrow> (string \<times> val) list" where
  "sent_data now kwargs =
     map (\<lambda>(k, v).
            if k = ''notes''
            then (k, VStr (case v of VStr x \<Rightarrow> strip x | _ \<Rightarrow> []))
            else (k, v))
       (filter (\<lambda>(k, v). k \<notin> set [''id'', ''created_at'', ''updated_at'']) kwargs)
     @ [(''updated_at'', VDatetime now)]"

definition new_row :: "datetime \<Rightarrow> (string \<times> val) list \<Rightarrow> booking \<Rightarrow> booking" where
  "new_row now kwargs b = set_clause (columns_of (sent_data now kwargs)) b"

section \<open>Deletes\<close>

text \<open>
  \<^verbatim>\<open>DELETE FROM ... WHERE id = %s\<close>, returning \<^verbatim>\<open>rowcount > 0\<close>. The two
  foreign keys of the bookings relation are declared without an ON DELETE action, so the
  store rejects the delete of a user or table that a booking references.
\<close>

definition delete_user :: "store \<Rightarrow> int \<Rightarrow> (error + bool) \<times> store" where
  "delete_user s uid =
     (if find (\<lambda>u. u_id u = uid) (users s) = None then (Inr False, s)
      else if list_ex (\<lambda>b. user_id b = uid) (bookings s) then (Inl IntegrityError, s)
      else (Inr True, s\<lparr>users := filter (\<lambda>u. u_id u \<noteq> uid) (users s)\<rparr>))"

definition delete_table :: "store \<Rightarrow> int \<Rightarrow> (error + bool) \<times> store" where
  "delete_table s tid =
     (if find (\<lambda>t. t_id t = tid) (tables s) = None then (Inr False, s)
      else if list_ex (\<lambda>b. table_id b = tid) (bookings s) then (Inl IntegrityError, s)
      else (Inr True, s\<lparr>tables := filter (\<lambda>t. t_id t \<noteq> tid) (tables s)\<rparr>))"

definition delete_booking :: "store \<Rightarrow> int \<Rightarrow> (error + bool) \<times> store" where
  "delete_booking s bid =
     (if find (\<lambda>b. b_id b = bid) (bookings s) = None then (Inr False, s)
      else (Inr True, s\<lparr>bookings := filter (\<lambda>b. b_id b \<noteq> bid) (bookings s)\<rparr>))"

section \<open>Properties of a store\<close>

text \<open>
  P1. The store keeps no duration, so the interval of a stored booking is the one the
  overlap query computes: two hours from its start.
\<close>

definition booking_start :: "booking \<Rightarrow> datetime" where
  "booking_start b = combine (booking_date b) (booking_time b)"

definition booking_end :: "booking \<Rightarrow> datetime" where
  "booking_end b = booking_start b + hours 2"

definition no_overlap :: "store \<Rightarrow> bool" where
  "no_overlap s \<longleftrightarrow>
     (\<forall>b1 \<in> set (bookings s). \<forall>b2 \<in> set (bookings s).
        b1 \<noteq> b2 \<and> table_id b1 = table_id b2 \<and> booking_date b1 = booking_date b2 \<and>
        status b1 \<noteq> ''cancelled'' \<and> status b2 \<noteq> ''cancelled''
        \<longrightarrow> \<not> (booking_start b1 < booking_end b2 \<and> booking_end b1 > booking_start b2))"

text \<open>Every booking references a user and a table of the store.\<close>

definition references_ok :: "store \<Rightarrow> bool" where
  "references_ok s \<longleftrightarrow>
     (\<forall>b \<in> set (bookings s).
        get_user_by_id s (user_id b) \<noteq> None \<and> get_table_by_id s (table_id b) \<noteq> None)"

text \<open>The booking operations as calls, and a sequence of calls run on a store.\<close>

datatype booking_op =
  CreateBooking datetime int int date time int string "string option" int
| UpdateBooking datetime int "(string \<times> val) list"
| DeleteBooking int

fun exec :: "booking_op \<Rightarrow> store \<Rightarrow> store" where
  "exec (CreateBooking now uid tid d t guests st n dur) s =
     snd (create_booking s now uid tid d t guests st n dur)"
| "exec (UpdateBooking now bid kwargs) s = snd (update_booking s now bid kwargs)"
| "exec (DeleteBooking bid) s = snd (delete_booking s bid)"

definition run :: "booking_op list \<Rightarrow> store \<Rightarrow> store" where
  "run ops s = foldl (\<lambda>s' op. exec op s') s ops"

text \<open>
  Calls that keep to the two-hour slots of the store. A creation asks for two hours or
  more. An update has keys that are plain names (letters, digits and underscores, with
  whitespace or double quotes around them) and values of their columns' types, and it
  leaves each booking it changes cancelled, or leaves a booking that was not cancelled on
  its table, date and time. Any delete.
\<close>

definition plain_key :: "string \<Rightarrow> bool" where
  "plain_key key \<longleftrightarrow>
     (let k = sql_trim key
      in list_all (\<lambda>c. c \<in> set ''abcdefghijklmnopqrstuvwxyzABCDEFGHIJKLMNOPQRSTUVWXYZ0123456789_'')
           (if quoted k then butlast (tl k) else k))"

fun admits :: "store \<Rightarrow> booking_op \<Rightarrow> bool" where
  "admits s (CreateBooking now uid tid d t guests st n dur) \<longleftrightarrow> 2 \<le> dur"
| "admits s (UpdateBooking now bid kwargs) \<longleftrightarrow>
     list_all (\<lambda>(k, v). plain_key k \<and> (case sql_column k of Some c \<Rightarrow> typed c v | None \<Rightarrow> True))
       kwargs \<and>
     list_all (\<lambda>b. b_id b = bid \<longrightarrow>
                 status (new_row now kwargs b) = ''cancelled'' \<or>
                 (table_id (new_row now kwargs b) = table_id b \<and>
                  booking_date (new_row now kwargs b) = booking_date b \<and>
                  booking_time (new_row now kwargs b) = booking_time b \<and>
                  status b \<noteq> ''cancelled''))
       (bookings s)"
| "admits s (DeleteBooking bid) \<longleftrightarrow> True"

fun admits_all :: "booking_op list \<Rightarrow> store \<Rightarrow> bool" where
  "admits_all [] s \<longleftrightarrow> True"
| "admits_all (op # ops) s \<longleftrightarrow> admits s op \<and> admits_all ops (exec op s)"

section \<open>A small restaurant\<close>

text \<open>
  One user, table T1 (available) and table T2 (switched off), no bookings; day 739403 is
  2025-06-01, day 3652059 is 9999-12-31, and \<open>clock h\<close> is the time of day at \<open>h\<close>
  o'clock.
\<close>

definition clock :: "int \<Rightarrow> time" where
  "clock h = h * 3600000000"

definition alice :: user where
  "alice = \<lparr>u_id = 1, username = ''alice'', email = ''alice@example.org'', full_name = None,
     phone = None, role = ''client'', is_active = True, u_created_at = 0, u_updated_at = 0\<rparr>"

definition T1 :: table where
  "T1 = \<lparr>t_id = 1, table_number = ''T1'', capacity = 4, location = None,
     is_available = True, description = None, t_created_at = 0, t_updated_at = 0\<rparr>"

definition T2 :: table where
  "T2 = \<lparr>t_id = 2, table_number = ''T2'', capacity = 2, location = None,
     is_available = False, description = None, t_created_at = 0, t_updated_at = 0\<rparr>"

definition restaurant :: store where
  "restaurant = \<lparr>users = [alice], tables = [T1, T2], bookings = [], bookings_id_seq = 1\<rparr>"

definition dinner :: booking where
  "dinner = \<lparr>b_id = 1, user_id = 1, table_id = 1, booking_date = 739403,
     booking_time = clock 18, guests_count = 2, status = ''pending'', b_notes = Some [],
     created_at = Some 5, updated_at = Some 5\<rparr>"

definition booked :: store where
  "booked = restaurant\<lparr>bookings := [dinner], bookings_id_seq := 2\<rparr>"

definition supper :: booking where
  "supper = \<lparr>b_id = 2, user_id = 1, table_id = 1, booking_date = 739403,
     booking_time = clock 20, guests_count = 2, status = ''pending'', b_notes = Some [],
     created_at = Some 6, updated_at = Some 6\<rparr>"

definition full :: store where
  "full = restaurant\<lparr>bookings := [dinner, supper], bookings_id_seq := 3\<rparr>"

section \<open>Availability check: results\<close>

lemmas example_defs = restaurant_def booked_def full_def dinner_def supper_def alice_def
  T1_def T2_def clock_def

lemmas operation_defs = check_table_availability_def get_table_by_id_def get_user_by_id_def
  count_conflicts_def overlap_where_def combine_def hours_def timedelta_def datetime_add_def
  create_booking_def insert_booking_def has_nul_def int4_def varchar20_def Let_def

lemma count_conflicts_zero:
  "count_conflicts s tid d e st = 0 \<longleftrightarrow>
     (\<forall>b \<in> set (bookings s). \<not> overlap_where tid d e st b)"
  by (simp add: count_conflicts_def filter_empty_conv)

text \<open>
  For a date and a time of day, the end of the candidate is computed exactly when it is
  a datetime of Python: a duration too long for a \<^verbatim>\<open>timedelta\<close> ends outside
  the datetimes as well.
\<close>

lemma end_datetime_cases:
  assumes "1 \<le> d" "d \<le> 3652059" "0 \<le> t" "t < 86400000000"
  shows "(case timedelta dur of
            Inl e \<Rightarrow> Inl e
          | Inr delta \<Rightarrow> datetime_add (combine d t) delta) =
         (if 86400000000 \<le> d * 86400000000 + t + dur * 3600000000 \<and>
             d * 86400000000 + t + dur * 3600000000 \<le> 3652059 * 86400000000 + 86399999999
          then Inr (d * 86400000000 + t + dur * 3600000000) else Inl OverflowError)"
proof (cases "- 999999999 \<le> dur div 24 \<and> dur div 24 \<le> 999999999")
  case True
  then show ?thesis by (simp add: timedelta_def datetime_add_def combine_def)
next
  case False
  then have "dur < - 23999999976 \<or> 23999999999 < dur" by linarith
  then have "\<not> (86400000000 \<le> d * 86400000000 + t + dur * 3600000000 \<and>
      d * 86400000000 + t + dur * 3600000000 \<le> 3652059 * 86400000000 + 86399999999)"
    using assms by linarith
  moreover have "timedelta dur = Inl OverflowError"
    using False by (auto simp add: timedelta_def)
  ultimately show ?thesis by simp
qed

lemma check_table_availability_available:
  assumes "get_table_by_id s tid = Some tb" "is_available tb"
    and "1 \<le> d" "d \<le> 3652059" "0 \<le> t" "t < 86400000000"
  shows "check_table_availability s tid d t dur =
     (if 86400000000 \<le> d * 86400000000 + t + dur * 3600000000 \<and>
         d * 86400000000 + t + dur * 3600000000 \<le> 3652059 * 86400000000 + 86399999999
      then Inr (count_conflicts s tid d (d * 86400000000 + t + dur * 3600000000)
                  (d * 86400000000 + t) = 0)
      else Inl OverflowError)"
proof -
  have "check_table_availability s tid d t dur =
      (case (case timedelta dur of Inl e \<Rightarrow> Inl e
             | Inr delta \<Rightarrow> datetime_add (combine d t) delta) of
         Inl e \<Rightarrow> Inl e
       | Inr end_datetime \<Rightarrow> Inr (count_conflicts s tid d end_datetime (combine d t) = 0))"
    using assms(1,2) by (simp add: check_table_availability_def Let_def split: sum.splits)
  then show ?thesis
    by (simp add: end_datetime_cases [OF assms(3-6)] combine_def)
qed

text \<open>
  C5: the check fails with "table not found" when no table has the identity, and with
  "table unavailable" when the table exists and its flag is false, whatever the
  bookings are (in particular when there are none). Otherwise, for a date and a time of
  day, it returns a boolean when the candidate's end, its start plus the duration, is a
  datetime of Python (0001-01-01 00:00 to 9999-12-31 23:59:59.999999), and fails with
  \<^verbatim>\<open>OverflowError\<close> when it is not.
\<close>

theorem check_table_availability_errors:
  "(get_table_by_id s tid = None \<longrightarrow>
      check_table_availability s tid d t dur = Inl (ValueError (TableNotFound tid))) \<and>
   (\<forall>tb. get_table_by_id s tid = Some tb \<and> \<not> is_available tb \<longrightarrow>
      check_table_availability s tid d t dur = Inl (ValueError (TableUnavailable (table_number tb))) \<and>
      check_table_availability (s\<lparr>bookings := []\<rparr>) tid d t dur =
        Inl (ValueError (TableUnavailable (table_number tb)))) \<and>
   (\<forall>tb. get_table_by_id s tid = Some tb \<and> is_available tb \<and>
         1 \<le> d \<and> d \<le> 3652059 \<and> 0 \<le> t \<and> t < 86400000000 \<longrightarrow>
      (if 86400000000 \<le> d * 86400000000 + t + dur * 3600000000 \<and>
          d * 86400000000 + t + dur * 3600000000 \<le> 3652059 * 86400000000 + 86399999999
       then \<exists>r. check_table_availability s tid d t dur = Inr r
       else check_table_availability s tid d t dur = Inl OverflowError))"
proof (intro conjI allI impI)
  assume "get_table_by_id s tid = None"
  then show "check_table_availability s tid d t dur = Inl (ValueError (TableNotFound tid))"
    by (simp add: check_table_availability_def)
next
  fix tb assume "get_table_by_id s tid = Some tb \<and> \<not> is_available tb"
  then show "check_table_availability s tid d t dur =
      Inl (ValueError (TableUnavailable (table_number tb)))"
    by (simp add: check_table_availability_def)
next
  fix tb assume "get_table_by_id s tid = Some tb \<and> \<not> is_available tb"
  then show "check_table_availability (s\<lparr>bookings := []\<rparr>) tid d t dur =
      Inl (ValueError (TableUnavailable (table_number tb)))"
    by (simp add: check_table_availability_def get_table_by_id_def)
next
  fix tb
  assume a: "get_table_by_id s tid = Some tb \<and> is_available tb \<and>
         1 \<le> d \<and> d \<le> 3652059 \<and> 0 \<le> t \<and> t < 86400000000"
  then have tb: "get_table_by_id s tid = Some tb" and av: "is_available tb"
    and dt: "1 \<le> d" "d \<le> 3652059" "0 \<le> t" "t < 86400000000"
    by simp_all
  have "check_table_availability s tid d t dur =
     (if 86400000000 \<le> d * 86400000000 + t + dur * 3600000000 \<and>
         d * 86400000000 + t + dur * 3600000000 \<le> 3652059 * 86400000000 + 86399999999
      then Inr (count_conflicts s tid d (d * 86400000000 + t + dur * 3600000000)
                  (d * 86400000000 + t) = 0)
      else Inl OverflowError)"
    using tb av dt by (rule check_table_availability_available)
  then show "if 86400000000 \<le> d * 86400000000 + t + dur * 3600000000 \<and>
          d * 86400000000 + t + dur * 3600000000 \<le> 3652059 * 86400000000 + 86399999999
       then \<exists>r. check_table_availability s tid d t dur = Inr r
       else check_table_availability s tid d t dur = Inl OverflowError"
    by simp
qed

text \<open>
  No table 3; table T2 is switched off; table T1 on 2025-06-01 at 18:00 for two hours
  gives a boolean; table T1 on 9999-12-31 at 23:00 for two hours, and on 2025-06-01 for
  a hundred million hours, overflows.
\<close>

theorem check_table_availability_errors_witness:
  "get_table_by_id restaurant 3 = None \<and>
   check_table_availability restaurant 3 739403 (clock 18) 2 = Inl (ValueError (TableNotFound 3)) \<and>
   get_table_by_id restaurant 2 = Some T2 \<and> \<not> is_available T2 \<and>
   check_table_availability restaurant 2 739403 (clock 18) 2 =
     Inl (ValueError (TableUnavailable ''T2'')) \<and>
   check_table_availability restaurant 2 3652059 (clock 23) 2 =
     Inl (ValueError (TableUnavailable ''T2'')) \<and>
   get_table_by_id restaurant 1 = Some T1 \<and> is_available T1 \<and>
   (\<exists>r. check_table_availability restaurant 1 739403 (clock 18) 2 = Inr r) \<and>
   check_table_availability restaurant 1 3652059 (clock 23) 2 = Inl OverflowError \<and>
   check_table_availability restaurant 1 739403 (clock 18) 100000000 = Inl OverflowError"
proof -
  have t3: "get_table_by_id restaurant 3 = None"
    and t2: "get_table_by_id restaurant 2 = Some T2" "\<not> is_available T2"
    and t1: "get_table_by_id restaurant 1 = Some T1" "is_available T1"
    by (simp_all add: get_table_by_id_def restaurant_def T1_def T2_def)
  show ?thesis
    using t3 t2 t1
      check_table_availability_errors [of restaurant 3 739403 "clock 18" 2]
      check_table_availability_errors [of restaurant 2 739403 "clock 18" 2]
      check_table_availability_errors [of restaurant 2 3652059 "clock 23" 2]
      check_table_availability_errors [of restaurant 1 739403 "clock 18" 2]
      check_table_availability_errors [of restaurant 1 3652059 "clock 23" 2]
      check_table_availability_errors [of restaurant 1 739403 "clock 18" 100000000]
    by (simp add: clock_def T2_def)
qed

text \<open>
  The claim as it is written, "otherwise it returns a boolean", fails: table T1 exists
  and is available, and the check for 9999-12-31 at 23:00 for two hours returns no
  boolean.
\<close>

theorem check_table_availability_overflows:
  "get_table_by_id restaurant 1 = Some T1 \<and> is_available T1 \<and>
   check_table_availability restaurant 1 3652059 (clock 23) 2 = Inl OverflowError \<and>
   \<not> (\<exists>r. check_table_availability restaurant 1 3652059 (clock 23) 2 = Inr r)"
  by (simp add: example_defs operation_defs)

text \<open>
  C2: for an existing, available table, a date and a time of day, when the candidate's
  end (its start plus its own duration) is a datetime of Python, the check returns true
  exactly when no booking has the same table, the same date, a status other than
  cancelled, a start before the candidate's end and a start plus two hours after the
  candidate's start, both comparisons strict; when the end is not such a datetime, the
  check fails with \<^verbatim>\<open>OverflowError\<close>. Datetimes are counted in microseconds:
  86400000000 to a day and 3600000000 to an hour.
\<close>

theorem check_table_availability_iff_no_conflict:
  assumes "get_table_by_id s tid = Some tb" and "is_available tb"
    and "1 \<le> d" and "d \<le> 3652059" and "0 \<le> t" and "t < 86400000000"
  shows "check_table_availability s tid d t dur =
     (if 86400000000 \<le> d * 86400000000 + t + dur * 3600000000 \<and>
         d * 86400000000 + t + dur * 3600000000 \<le> 3652059 * 86400000000 + 86399999999
      then Inr (\<forall>b \<in> set (bookings s).
             \<not> (table_id b = tid \<and> booking_date b = d \<and> status b \<noteq> ''cancelled'' \<and>
                booking_date b * 86400000000 + booking_time b
                  < d * 86400000000 + t + dur * 3600000000 \<and>
                booking_date b * 86400000000 + booking_time b + 2 * 3600000000
                  > d * 86400000000 + t))
      else Inl OverflowError)"
  by (simp add: check_table_availability_available [OF assms] count_conflicts_zero
        overlap_where_def combine_def hours_def)

text \<open>
  Next to the dinner at 18:00 on table T1: from 17:00 one hour is free and two hours are
  not; from 16:00 two hours are free and three are not; 19:00 is taken and 20:00, the
  dinner's two-hour end, is free; once the dinner is cancelled its own slot is free; and
  two hours from 23:00 on 9999-12-31 overflow.
\<close>

theorem check_table_availability_iff_no_conflict_witness:
  "get_table_by_id booked 1 = Some T1 \<and> is_available T1 \<and>
   check_table_availability booked 1 739403 (clock 17) 1 = Inr True \<and>
   check_table_availability booked 1 739403 (clock 17) 2 = Inr False \<and>
   check_table_availability booked 1 739403 (clock 16) 2 = Inr True \<and>
   check_table_availability booked 1 739403 (clock 16) 3 = Inr False \<and>
   check_table_availability booked 1 739403 (clock 19) 1 = Inr False \<and>
   check_table_availability booked 1 739403 (clock 20) 1 = Inr True \<and>
   check_table_availability booked 1 739404 (clock 18) 2 = Inr True \<and>
   check_table_availability (booked\<lparr>bookings := [dinner\<lparr>status := ''cancelled''\<rparr>]\<rparr>)
     1 739403 (clock 18) 2 = Inr True \<and>
   check_table_availability booked 1 3652059 (clock 23) 2 = Inl OverflowError"
proof -
  have tb: "get_table_by_id booked 1 = Some T1"
    by (simp add: get_table_by_id_def example_defs)
  have tb': "get_table_by_id (booked\<lparr>bookings := [dinner\<lparr>status := ''cancelled''\<rparr>]\<rparr>) 1 = Some T1"
    by (simp add: get_table_by_id_def example_defs)
  have av: "is_available T1"
    by (simp add: T1_def)
  have bs: "bookings booked = [dinner]"
    by (simp add: booked_def)
  show ?thesis
    using tb av
      check_table_availability_iff_no_conflict [OF tb av, of 739403 "clock 17" 1]
      check_table_availability_iff_no_conflict [OF tb av, of 739403 "clock 17" 2]
      check_table_availability_iff_no_conflict [OF tb av, of 739403 "clock 16" 2]
      check_table_availability_iff_no_conflict [OF tb av, of 739403 "clock 16" 3]
      check_table_availability_iff_no_conflict [OF tb av, of 739403 "clock 19" 1]
      check_table_availability_iff_no_conflict [OF tb av, of 739403 "clock 20" 1]
      check_table_availability_iff_no_conflict [OF tb av, of 739404 "clock 18" 2]
      check_table_availability_iff_no_conflict [OF tb' av, of 739403 "clock 18" 2]
      check_table_availability_iff_no_conflict [OF tb av, of 3652059 "clock 23" 2]
    by (simp add: bs dinner_def clock_def)
qed

text \<open>
  The claim as it is written fails where the end is no datetime: no booking of the
  restaurant conflicts with two hours from 23:00 on 9999-12-31 on the available table
  T1, and the check does not return true.
\<close>

theorem check_table_availability_not_true:
  "get_table_by_id restaurant 1 = Some T1 \<and> is_available T1 \<and>
   count_conflicts restaurant 1 3652059
     (combine 3652059 (clock 23) + hours 2) (combine 3652059 (clock 23)) = 0 \<and>
   check_table_availability restaurant 1 3652059 (clock 23) 2 \<noteq> Inr True"
  by (simp add: example_defs operation_defs)

section \<open>Creating a booking: results\<close>

lemma check_Inr_table:
  "check_table_availability s tid d t dur = Inr r \<Longrightarrow>
   \<exists>tb. get_table_by_id s tid = Some tb \<and> is_available tb"
  by (auto simp add: check_table_availability_def Let_def split: option.splits if_splits)

lemma varchar20_Inr:
  "varchar20 x = Inr y \<Longrightarrow> y = take 20 x"
  by (auto simp add: varchar20_def split: if_splits)

lemma insert_booking_cases:
  "insert_booking s now uid tid d t g st n = (r, s') \<Longrightarrow>
   users s' = users s \<and> tables s' = tables s \<and>
   ((isl r \<and> bookings s' = bookings s) \<or>
    (\<exists>b. r = Inr b \<and> bookings s' = bookings s @ [b\<lparr>status := take 20 (status b)\<rparr>] \<and>
       b_notes b = Some n \<and> guests_count b = g \<and> status b = st \<and>
       table_id b = tid \<and> booking_date b = d \<and> booking_time b = t \<and>
       find (\<lambda>x. b_id x = b_id b) (bookings s) = None))"
  by (auto simp add: insert_booking_def Let_def dest: varchar20_Inr
        split: if_splits sum.splits)

lemma create_booking_Inr:
  "fst (create_booking s now uid tid d t g st n dur) = Inr b \<Longrightarrow>
   check_table_availability s tid d t dur = Inr True \<and>
   create_booking s now uid tid d t g st n dur =
     insert_booking s now uid tid d t g st (case n of None \<Rightarrow> [] | Some x \<Rightarrow> strip x)"
  by (auto simp add: create_booking_def split: sum.splits bool.splits)

lemma create_booking_Inr_row:
  assumes "fst (create_booking s now uid tid d t g st n dur) = Inr b"
  shows "users (snd (create_booking s now uid tid d t g st n dur)) = users s \<and>
     tables (snd (create_booking s now uid tid d t g st n dur)) = tables s \<and>
     bookings (snd (create_booking s now uid tid d t g st n dur)) =
       bookings s @ [b\<lparr>status := take 20 (status b)\<rparr>] \<and>
     b_notes b = Some (case n of None \<Rightarrow> [] | Some x \<Rightarrow> strip x) \<and>
     guests_count b = g \<and> status b = st \<and>
     table_id b = tid \<and> booking_date b = d \<and> booking_time b = t \<and>
     find (\<lambda>x. b_id x = b_id b) (bookings s) = None"
proof -
  let ?n = "case n of None \<Rightarrow> [] | Some x \<Rightarrow> strip x"
  obtain r s' where ins: "insert_booking s now uid tid d t g st ?n = (r, s')"
    by (cases "insert_booking s now uid tid d t g st ?n")
  have cb: "create_booking s now uid tid d t g st n dur = (r, s')"
    using create_booking_Inr [OF assms] ins by simp
  from insert_booking_cases [OF ins] assms cb show ?thesis by auto
qed

lemma create_booking_Inl_store:
  assumes "fst (create_booking s now uid tid d t g st n dur) = Inl e"
  shows "users (snd (create_booking s now uid tid d t g st n dur)) = users s \<and>
     tables (snd (create_booking s now uid tid d t g st n dur)) = tables s \<and>
     bookings (snd (create_booking s now uid tid d t g st n dur)) = bookings s"
proof (cases "check_table_availability s tid d t dur")
  case (Inl e')
  then show ?thesis by (simp add: create_booking_def)
next
  case (Inr r)
  show ?thesis
  proof (cases r)
    case False
    then show ?thesis using Inr by (simp add: create_booking_def)
  next
    case True
    let ?n = "case n of None \<Rightarrow> [] | Some x \<Rightarrow> strip x"
    obtain x s' where ins: "insert_booking s now uid tid d t g st ?n = (x, s')"
      by (cases "insert_booking s now uid tid d t g st ?n")
    have cb: "create_booking s now uid tid d t g st n dur = (x, s')"
      using Inr True ins by (simp add: create_booking_def)
    from insert_booking_cases [OF ins] assms cb show ?thesis by auto
  qed
qed



text \<open>
  C4: \<^verbatim>\<open>create_booking\<close> fails with the "already booked" error, which carries the
  table's number and the requested date and time, exactly when the availability check
  returns false; an error of the check is passed on as it is, with the store as it was;
  whenever the call fails the three relations are what they were; and when it succeeds
  the bookings relation is the old one followed by one row, the returned row with its
  status cut to the twenty characters of the column: the returned row itself when its
  status has at most twenty characters.
\<close>

theorem create_booking_atomic:
  "((\<exists>ref. fst (create_booking s now uid tid d t g st n dur) =
        Inl (ValueError (TableAlreadyBooked ref d t)))
     \<longleftrightarrow> check_table_availability s tid d t dur = Inr False) \<and>
   (check_table_availability s tid d t dur = Inr False \<longrightarrow>
      (\<exists>tb. get_table_by_id s tid = Some tb \<and>
         create_booking s now uid tid d t g st n dur =
           (Inl (ValueError (TableAlreadyBooked (Number (table_number tb)) d t)), s))) \<and>
   (\<forall>e. check_table_availability s tid d t dur = Inl e \<longrightarrow>
      create_booking s now uid tid d t g st n dur = (Inl e, s)) \<and>
   (isl (fst (create_booking s now uid tid d t g st n dur)) \<longrightarrow>
      users (snd (create_booking s now uid tid d t g st n dur)) = users s \<and>
      tables (snd (create_booking s now uid tid d t g st n dur)) = tables s \<and>
      bookings (snd (create_booking s now uid tid d t g st n dur)) = bookings s) \<and>
   (\<forall>b. fst (create_booking s now uid tid d t g st n dur) = Inr b \<longrightarrow>
      bookings (snd (create_booking s now uid tid d t g st n dur)) =
        bookings s @ [b\<lparr>status := take 20 (status b)\<rparr>] \<and>
      (length (status b) \<le> 20 \<longrightarrow>
         bookings (snd (create_booking s now uid tid d t g st n dur)) = bookings s @ [b]))"
proof (intro conjI allI impI)
  show "(\<exists>ref. fst (create_booking s now uid tid d t g st n dur) =
        Inl (ValueError (TableAlreadyBooked ref d t)))
     \<longleftrightarrow> check_table_availability s tid d t dur = Inr False"
  proof (cases "check_table_availability s tid d t dur")
    case (Inl e)
    have "e \<noteq> ValueError (TableAlreadyBooked ref d t)" for ref
      using Inl
      by (auto simp add: check_table_availability_def timedelta_def datetime_add_def Let_def
            split: option.splits if_splits sum.splits)
    then show ?thesis using Inl by (simp add: create_booking_def)
  next
    case (Inr r)
    show ?thesis
    proof (cases r)
      case False
      then show ?thesis using Inr by (simp add: create_booking_def)
    next
      case True
      have "fst (insert_booking s now uid tid d t g st n') \<noteq>
          Inl (ValueError (TableAlreadyBooked ref d t))" for ref n'
        by (auto simp add: insert_booking_def varchar20_def Let_def split: if_splits sum.splits)
      then show ?thesis using Inr True by (simp add: create_booking_def)
    qed
  qed
next
  assume a: "check_table_availability s tid d t dur = Inr False"
  obtain tb where tb: "get_table_by_id s tid = Some tb" using check_Inr_table [OF a] by blast
  show "\<exists>tb. get_table_by_id s tid = Some tb \<and>
         create_booking s now uid tid d t g st n dur =
           (Inl (ValueError (TableAlreadyBooked (Number (table_number tb)) d t)), s)"
    using a tb by (simp add: create_booking_def)
next
  fix e assume "check_table_availability s tid d t dur = Inl e"
  then show "create_booking s now uid tid d t g st n dur = (Inl e, s)"
    by (simp add: create_booking_def)
next
  assume "isl (fst (create_booking s now uid tid d t g st n dur))"
  then obtain e where e: "fst (create_booking s now uid tid d t g st n dur) = Inl e"
    by (auto simp add: isl_def)
  from create_booking_Inl_store [OF e]
  show "users (snd (create_booking s now uid tid d t g st n dur)) = users s"
    and "tables (snd (create_booking s now uid tid d t g st n dur)) = tables s"
    and "bookings (snd (create_booking s now uid tid d t g st n dur)) = bookings s"
    by simp_all
next
  fix b assume a: "fst (create_booking s now uid tid d t g st n dur) = Inr b"
  from create_booking_Inr_row [OF a]
  show row: "bookings (snd (create_booking s now uid tid d t g st n dur)) =
        bookings s @ [b\<lparr>status := take 20 (status b)\<rparr>]"
    by simp
  assume "length (status b) \<le> 20"
  then show "bookings (snd (create_booking s now uid tid d t g st n dur)) = bookings s @ [b]"
    using row by simp
qed

text \<open>
  The taken slot 19:00 next to the dinner; the switched-off table T2; an end that is
  no datetime; a user that does not exist; a status that does not fit its column; and
  the dinner itself, created in the empty restaurant.
\<close>

theorem create_booking_atomic_witness:
  "check_table_availability booked 1 739403 (clock 19) 2 = Inr False \<and>
   create_booking booked 9 1 1 739403 (clock 19) 2 ''pending'' None 2 =
     (Inl (ValueError (TableAlreadyBooked (Number ''T1'') 739403 (clock 19))), booked) \<and>
   check_table_availability restaurant 2 739403 (clock 18) 2 =
     Inl (ValueError (TableUnavailable ''T2'')) \<and>
   create_booking restaurant 5 1 2 739403 (clock 18) 2 ''pending'' None 2 =
     (Inl (ValueError (TableUnavailable ''T2'')), restaurant) \<and>
   check_table_availability restaurant 1 3652059 (clock 23) 2 = Inl OverflowError \<and>
   create_booking restaurant 5 1 1 3652059 (clock 23) 2 ''pending'' None 2 =
     (Inl OverflowError, restaurant) \<and>
   fst (create_booking restaurant 5 7 1 739403 (clock 18) 2 ''pending'' None 2) = Inl IntegrityError \<and>
   bookings (snd (create_booking restaurant 5 7 1 739403 (clock 18) 2 ''pending'' None 2)) = [] \<and>
   fst (create_booking restaurant 5 1 1 739403 (clock 18) 2 ''pending, to be confirmed'' None 2)
     = Inl DataError \<and>
   bookings (snd (create_booking restaurant 5 1 1 739403 (clock 18) 2
     ''pending, to be confirmed'' None 2)) = [] \<and>
   fst (create_booking restaurant 5 1 1 739403 (clock 18) 2 ''pending'' None 2) = Inr dinner \<and>
   bookings (snd (create_booking restaurant 5 1 1 739403 (clock 18) 2 ''pending'' None 2)) = [dinner]"
proof -
  have c1: "check_table_availability booked 1 739403 (clock 19) 2 = Inr False"
    and c2: "check_table_availability restaurant 2 739403 (clock 18) 2 =
      Inl (ValueError (TableUnavailable ''T2''))"
    and c3: "check_table_availability restaurant 1 3652059 (clock 23) 2 = Inl OverflowError"
    by (simp_all add: example_defs operation_defs)
  have t1: "get_table_by_id booked 1 = Some T1" and n1: "table_number T1 = ''T1''"
    by (simp_all add: example_defs get_table_by_id_def)
  have f4: "fst (create_booking restaurant 5 7 1 739403 (clock 18) 2 ''pending'' None 2) =
      Inl IntegrityError"
    and f5: "fst (create_booking restaurant 5 1 1 739403 (clock 18) 2
      ''pending, to be confirmed'' None 2) = Inl DataError"
    and f6: "fst (create_booking restaurant 5 1 1 739403 (clock 18) 2 ''pending'' None 2) =
      Inr dinner"
    by (simp_all add: example_defs operation_defs)
  have e: "bookings restaurant = []" and l: "length (status dinner) \<le> 20"
    by (simp_all add: example_defs)
  show ?thesis
    using c1 c2 c3 t1 n1 f4 f5 f6 e l
      create_booking_atomic [of booked 9 1 1 739403 "clock 19" 2 "''pending''" None 2]
      create_booking_atomic [of restaurant 5 1 2 739403 "clock 18" 2 "''pending''" None 2]
      create_booking_atomic [of restaurant 5 1 1 3652059 "clock 23" 2 "''pending''" None 2]
      create_booking_atomic [of restaurant 5 7 1 739403 "clock 18" 2 "''pending''" None 2]
      create_booking_atomic [of restaurant 5 1 1 739403 "clock 18" 2
        "''pending, to be confirmed''" None 2]
      create_booking_atomic [of restaurant 5 1 1 739403 "clock 18" 2 "''pending''" None 2]
    by simp
qed

text \<open>
  The claim as it is written, "on success exactly the returned row is persisted", fails
  for a status longer than its column whose excess is spaces: the call succeeds, the
  Booking returned has the status as it was passed, and the row kept has it cut.
\<close>

theorem create_booking_returns_uncut_status:
  "fst (create_booking restaurant 5 1 1 739403 (clock 18) 2 ''pending              '' None 2) =
     Inr (dinner\<lparr>status := ''pending              ''\<rparr>) \<and>
   bookings (snd (create_booking restaurant 5 1 1 739403 (clock 18) 2
     ''pending              '' None 2)) = [dinner\<lparr>status := ''pending             ''\<rparr>] \<and>
   dinner\<lparr>status := ''pending              ''\<rparr> \<noteq> dinner\<lparr>status := ''pending             ''\<rparr>"
  by (simp add: example_defs operation_defs)

text \<open>
  C9: a successful \<^verbatim>\<open>create_booking\<close> leaves the users and the tables as they
  were and appends one row to the bookings: the returned row, with its status cut to the
  width of the column. The row was not there, no earlier row has its identity, and the
  earlier booking rows stay as they were.
\<close>

theorem create_booking_frame:
  "fst (create_booking s now uid tid d t g st n dur) = Inr b \<Longrightarrow>
   users (snd (create_booking s now uid tid d t g st n dur)) = users s \<and>
   tables (snd (create_booking s now uid tid d t g st n dur)) = tables s \<and>
   bookings (snd (create_booking s now uid tid d t g st n dur)) =
     bookings s @ [b\<lparr>status := take 20 (status b)\<rparr>] \<and>
   length (bookings (snd (create_booking s now uid tid d t g st n dur))) =
     length (bookings s) + 1 \<and>
   take (length (bookings s)) (bookings (snd (create_booking s now uid tid d t g st n dur))) =
     bookings s \<and>
   b \<notin> set (bookings s) \<and> b\<lparr>status := take 20 (status b)\<rparr> \<notin> set (bookings s) \<and>
   b_id b \<notin> b_id ` set (bookings s)"
proof -
  assume a: "fst (create_booking s now uid tid d t g st n dur) = Inr b"
  note row = create_booking_Inr_row [OF a]
  have fresh: "b_id x \<noteq> b_id b" if "x \<in> set (bookings s)" for x
    using row that by (auto simp add: find_None_iff)
  have "b \<notin> set (bookings s)" "b\<lparr>status := take 20 (status b)\<rparr> \<notin> set (bookings s)"
    "b_id b \<notin> b_id ` set (bookings s)"
    using fresh by force+
  then show ?thesis using row by simp
qed

theorem create_booking_frame_witness:
  "fst (create_booking booked 6 1 1 739403 (clock 20) 2 ''pending'' None 2) = Inr supper \<and>
   users (snd (create_booking booked 6 1 1 739403 (clock 20) 2 ''pending'' None 2)) = [alice] \<and>
   tables (snd (create_booking booked 6 1 1 739403 (clock 20) 2 ''pending'' None 2)) = [T1, T2] \<and>
   bookings (snd (create_booking booked 6 1 1 739403 (clock 20) 2 ''pending'' None 2)) =
     [dinner, supper] \<and>
   supper \<notin> set (bookings booked)"
proof -
  have h: "fst (create_booking booked 6 1 1 739403 (clock 20) 2 ''pending'' None 2) = Inr supper"
    by (simp add: example_defs operation_defs)
  have c: "supper\<lparr>status := take 20 (status supper)\<rparr> = supper"
    by (simp add: supper_def)
  show ?thesis using h c create_booking_frame [OF h] by (simp add: booked_def restaurant_def)
qed

text \<open>
  C6, as the code has it: \<^verbatim>\<open>create_booking\<close> does not look at
  \<^verbatim>\<open>guests_count\<close>, and the store only at whether its INTEGER column, of 32
  bits, can hold it. For two counts the column can hold, whether the call fails, and
  with which error, is the same, and a successful call returns and stores the count it
  was given, positive or not. A count the column cannot hold never creates a booking and
  leaves the store as it was: when the check admits the slot and the strings hold no NUL
  character, the failure is the store's \<^verbatim>\<open>DataError\<close>.
\<close>

theorem create_booking_ignores_guests_count:
  "(- 2147483648 \<le> g \<and> g \<le> 2147483647 \<and> - 2147483648 \<le> g' \<and> g' \<le> 2147483647 \<longrightarrow>
     (case fst (create_booking s now uid tid d t g st n dur) of
        Inl e \<Rightarrow> create_booking s now uid tid d t g' st n dur =
                   create_booking s now uid tid d t g st n dur
      | Inr b \<Rightarrow> guests_count b = g \<and>
          create_booking s now uid tid d t g' st n dur =
            (Inr (b\<lparr>guests_count := g'\<rparr>),
             (snd (create_booking s now uid tid d t g st n dur))
               \<lparr>bookings := bookings s @
                  [b\<lparr>guests_count := g', status := take 20 (status b)\<rparr>]\<rparr>))) \<and>
   (g < - 2147483648 \<or> 2147483647 < g \<longrightarrow>
      isl (fst (create_booking s now uid tid d t g st n dur)) \<and>
      snd (create_booking s now uid tid d t g st n dur) = s \<and>
      (check_table_availability s tid d t dur = Inr True \<and> CHR 0x00 \<notin> set st \<and>
       CHR 0x00 \<notin> set (case n of None \<Rightarrow> [] | Some x \<Rightarrow> strip x) \<longrightarrow>
         fst (create_booking s now uid tid d t g st n dur) = Inl DataError))"
proof (intro conjI impI)
  assume r: "- 2147483648 \<le> g \<and> g \<le> 2147483647 \<and> - 2147483648 \<le> g' \<and> g' \<le> 2147483647"
  then have g: "int4 g" "int4 g'" by (simp_all add: int4_def)
  have ins: "case fst (insert_booking s now uid tid d t g st m) of
        Inl e \<Rightarrow> insert_booking s now uid tid d t g' st m = insert_booking s now uid tid d t g st m
      | Inr b \<Rightarrow> guests_count b = g \<and>
          insert_booking s now uid tid d t g' st m =
            (Inr (b\<lparr>guests_count := g'\<rparr>),
             (snd (insert_booking s now uid tid d t g st m))
               \<lparr>bookings := bookings s @
                  [b\<lparr>guests_count := g', status := take 20 (status b)\<rparr>]\<rparr>)" for m
    using g by (auto simp add: insert_booking_def Let_def dest: varchar20_Inr
        split: sum.splits if_splits)
  show "case fst (create_booking s now uid tid d t g st n dur) of
        Inl e \<Rightarrow> create_booking s now uid tid d t g' st n dur =
                   create_booking s now uid tid d t g st n dur
      | Inr b \<Rightarrow> guests_count b = g \<and>
          create_booking s now uid tid d t g' st n dur =
            (Inr (b\<lparr>guests_count := g'\<rparr>),
             (snd (create_booking s now uid tid d t g st n dur))
               \<lparr>bookings := bookings s @
                  [b\<lparr>guests_count := g', status := take 20 (status b)\<rparr>]\<rparr>)"
  proof (cases "check_table_availability s tid d t dur")
    case (Inl e)
    then show ?thesis by (simp add: create_booking_def)
  next
    case (Inr r)
    show ?thesis
    proof (cases r)
      case False
      then show ?thesis using Inr by (simp add: create_booking_def)
    next
      case True
      have cb: "create_booking s now uid tid d t x st n dur =
          insert_booking s now uid tid d t x st (case n of None \<Rightarrow> [] | Some x \<Rightarrow> strip x)"
        for x
        using Inr True by (simp add: create_booking_def)
      show ?thesis unfolding cb by (rule ins)
    qed
  qed
next
  assume "g < - 2147483648 \<or> 2147483647 < g"
  then have g: "\<not> int4 g" by (auto simp add: int4_def)
  have ins: "isl (fst (insert_booking s now uid tid d t g st m)) \<and>
      snd (insert_booking s now uid tid d t g st m) = s \<and>
      (\<not> has_nul st \<and> \<not> has_nul m \<longrightarrow>
         fst (insert_booking s now uid tid d t g st m) = Inl DataError)" for m
    using g by (simp add: insert_booking_def)
  show "isl (fst (create_booking s now uid tid d t g st n dur))"
    and "snd (create_booking s now uid tid d t g st n dur) = s"
    using ins [of "case n of None \<Rightarrow> [] | Some x \<Rightarrow> strip x"]
    by (auto simp add: create_booking_def split: sum.splits bool.splits)
  assume "check_table_availability s tid d t dur = Inr True \<and> CHR 0x00 \<notin> set st \<and>
       CHR 0x00 \<notin> set (case n of None \<Rightarrow> [] | Some x \<Rightarrow> strip x)"
  then show "fst (create_booking s now uid tid d t g st n dur) = Inl DataError"
    using ins [of "case n of None \<Rightarrow> [] | Some x \<Rightarrow> strip x"]
    by (simp add: create_booking_def has_nul_def)
qed

text \<open>
  Two guests and minus one guest give the same dinner but for the count; the taken slot
  is refused for no guests as it is for two; and 2147483648 guests are more than the
  column holds.
\<close>

theorem create_booking_ignores_guests_count_witness:
  "fst (create_booking restaurant 5 1 1 739403 (clock 18) 2 ''pending'' None 2) = Inr dinner \<and>
   fst (create_booking restaurant 5 1 1 739403 (clock 18) (- 1) ''pending'' None 2) =
     Inr (dinner\<lparr>guests_count := - 1\<rparr>) \<and>
   bookings (snd (create_booking restaurant 5 1 1 739403 (clock 18) (- 1) ''pending'' None 2)) =
     [dinner\<lparr>guests_count := - 1\<rparr>] \<and>
   create_booking booked 9 1 1 739403 (clock 19) 0 ''pending'' None 2 =
     create_booking booked 9 1 1 739403 (clock 19) 2 ''pending'' None 2 \<and>
   check_table_availability restaurant 1 739403 (clock 18) 2 = Inr True \<and>
   create_booking restaurant 5 1 1 739403 (clock 18) 2147483648 ''pending'' None 2 =
     (Inl DataError, restaurant)"
proof -
  have f1: "fst (create_booking restaurant 5 1 1 739403 (clock 18) 2 ''pending'' None 2) = Inr dinner"
    by (simp add: example_defs operation_defs)
  have f2: "isl (fst (create_booking booked 9 1 1 739403 (clock 19) 2 ''pending'' None 2))"
    by (simp add: example_defs operation_defs)
  have c: "check_table_availability restaurant 1 739403 (clock 18) 2 = Inr True"
    by (simp add: example_defs operation_defs)
  have e: "bookings restaurant = []" and st: "take 20 (status dinner) = ''pending''"
    by (simp_all add: example_defs)
  have g1: "create_booking restaurant 5 1 1 739403 (clock 18) (- 1) ''pending'' None 2 =
      (Inr (dinner\<lparr>guests_count := - 1\<rparr>),
       (snd (create_booking restaurant 5 1 1 739403 (clock 18) 2 ''pending'' None 2))
         \<lparr>bookings := [dinner\<lparr>guests_count := - 1, status := ''pending''\<rparr>]\<rparr>)"
    using f1 e st create_booking_ignores_guests_count
      [where s = restaurant and now = 5 and uid = 1 and tid = 1 and d = 739403
         and t = "clock 18" and g = 2 and g' = "- 1" and st = "''pending''" and n = None
         and dur = 2]
    by simp
  have d: "dinner\<lparr>guests_count := - 1, status := ''pending''\<rparr> = dinner\<lparr>guests_count := - 1\<rparr>"
    by (simp add: dinner_def)
  have g2: "create_booking booked 9 1 1 739403 (clock 19) 0 ''pending'' None 2 =
     create_booking booked 9 1 1 739403 (clock 19) 2 ''pending'' None 2"
    using f2 create_booking_ignores_guests_count
      [where s = booked and now = 9 and uid = 1 and tid = 1 and d = 739403
         and t = "clock 19" and g = 2 and g' = 0 and st = "''pending''" and n = None
         and dur = 2]
    by (cases "fst (create_booking booked 9 1 1 739403 (clock 19) 2 ''pending'' None 2)") simp_all
  have g3: "create_booking restaurant 5 1 1 739403 (clock 18) 2147483648 ''pending'' None 2 =
     (Inl DataError, restaurant)"
    using c create_booking_ignores_guests_count
      [where s = restaurant and now = 5 and uid = 1 and tid = 1 and d = 739403
         and t = "clock 18" and g = 2147483648 and g' = 0 and st = "''pending''" and n = None
         and dur = 2]
    by (simp add: prod_eq_iff)
  show ?thesis using f1 g1 d g2 c g3 by simp
qed

text \<open>
  Against C6 as stated: with no guests, and with minus three, the booking is created
  and persisted.
\<close>

theorem create_booking_accepts_nonpositive_guests:
  "fst (create_booking restaurant 5 1 1 739403 (clock 18) 0 ''pending'' None 2) =
     Inr (dinner\<lparr>guests_count := 0\<rparr>) \<and>
   bookings (snd (create_booking restaurant 5 1 1 739403 (clock 18) 0 ''pending'' None 2)) =
     [dinner\<lparr>guests_count := 0\<rparr>] \<and>
   fst (create_booking restaurant 5 1 1 739403 (clock 18) (- 3) ''pending'' None 2) =
     Inr (dinner\<lparr>guests_count := - 3\<rparr>) \<and>
   bookings (snd (create_booking restaurant 5 1 1 739403 (clock 18) (- 3) ''pending'' None 2)) =
     [dinner\<lparr>guests_count := - 3\<rparr>]"
  by (simp add: example_defs operation_defs)

text \<open>
  C3, as the code has it: the duration is used by the availability check and nowhere
  else. Two calls that differ only in \<^verbatim>\<open>duration_hours\<close> and are both admitted
  return the same booking and leave the same store, which is the INSERT of the other
  arguments: neither the row nor the returned object holds a duration.
\<close>

theorem create_booking_duration_only_checked:
  "check_table_availability s tid d t dur = Inr True \<Longrightarrow>
   check_table_availability s tid d t dur' = Inr True \<Longrightarrow>
   create_booking s now uid tid d t g st n dur = create_booking s now uid tid d t g st n dur' \<and>
   create_booking s now uid tid d t g st n dur =
     insert_booking s now uid tid d t g st (case n of None \<Rightarrow> [] | Some x \<Rightarrow> strip x)"
  by (simp add: create_booking_def)

theorem create_booking_duration_only_checked_witness:
  "check_table_availability booked 1 739403 (clock 20) 1 = Inr True \<and>
   check_table_availability booked 1 739403 (clock 20) 4 = Inr True \<and>
   create_booking booked 9 1 1 739403 (clock 20) 2 ''pending'' None 1 =
     create_booking booked 9 1 1 739403 (clock 20) 2 ''pending'' None 4"
proof -
  have a: "check_table_availability booked 1 739403 (clock 20) 1 = Inr True"
    by (simp add: example_defs operation_defs)
  have b: "check_table_availability booked 1 739403 (clock 20) 4 = Inr True"
    by (simp add: example_defs operation_defs)
  show ?thesis
    using a b create_booking_duration_only_checked [OF a b, of 9 1 2 "''pending''" None]
    by simp
qed

text \<open>
  Against C3 as stated: a one-hour and a three-hour booking of the same slot give the
  same returned booking and the same store, so the duration cannot be read back.
\<close>

theorem create_booking_drops_duration:
  "create_booking restaurant 5 1 1 739403 (clock 18) 2 ''pending'' None 1 =
     create_booking restaurant 5 1 1 739403 (clock 18) 2 ''pending'' None 3 \<and>
   fst (create_booking restaurant 5 1 1 739403 (clock 18) 2 ''pending'' None 1) = Inr dinner \<and>
   bookings (snd (create_booking restaurant 5 1 1 739403 (clock 18) 2 ''pending'' None 1)) = [dinner]"
  by (simp add: example_defs operation_defs)

section \<open>Deletes: results\<close>

text \<open>
  C7, as the code has it: \<^verbatim>\<open>delete_user\<close> and \<^verbatim>\<open>delete_table\<close> return false
  and change nothing when no row has the identity; they remove the row and return true
  when the row exists and no booking references it; and when a booking references the
  row, the foreign key of the bookings relation makes the store reject the delete, which
  leaves the store as it was. So a store whose bookings all reference existing users and
  tables stays that way: no delete leaves a dangling reference.
\<close>

theorem delete_keeps_references:
  "(get_user_by_id s uid = None \<longrightarrow> delete_user s uid = (Inr False, s)) \<and>
   (get_user_by_id s uid \<noteq> None \<and> list_ex (\<lambda>b. user_id b = uid) (bookings s) \<longrightarrow>
      delete_user s uid = (Inl IntegrityError, s)) \<and>
   (get_user_by_id s uid \<noteq> None \<and> \<not> list_ex (\<lambda>b. user_id b = uid) (bookings s) \<longrightarrow>
      delete_user s uid = (Inr True, s\<lparr>users := filter (\<lambda>u. u_id u \<noteq> uid) (users s)\<rparr>) \<and>
      get_user_by_id (snd (delete_user s uid)) uid = None) \<and>
   (get_table_by_id s tid = None \<longrightarrow> delete_table s tid = (Inr False, s)) \<and>
   (get_table_by_id s tid \<noteq> None \<and> list_ex (\<lambda>b. table_id b = tid) (bookings s) \<longrightarrow>
      delete_table s tid = (Inl IntegrityError, s)) \<and>
   (get_table_by_id s tid \<noteq> None \<and> \<not> list_ex (\<lambda>b. table_id b = tid) (bookings s) \<longrightarrow>
      delete_table s tid = (Inr True, s\<lparr>tables := filter (\<lambda>t. t_id t \<noteq> tid) (tables s)\<rparr>) \<and>
      get_table_by_id (snd (delete_table s tid)) tid = None) \<and>
   (references_ok s \<longrightarrow>
      references_ok (snd (delete_user s uid)) \<and> references_ok (snd (delete_table s tid)))"
proof (intro conjI impI)
  assume r: "references_ok s"
  show "references_ok (snd (delete_user s uid))"
    using r unfolding references_ok_def delete_user_def get_user_by_id_def get_table_by_id_def
    by (simp add: list_ex_iff find_None_iff) metis
  show "references_ok (snd (delete_table s tid))"
    using r unfolding references_ok_def delete_table_def get_user_by_id_def get_table_by_id_def
    by (simp add: list_ex_iff find_None_iff) metis
qed (auto simp add: delete_user_def delete_table_def get_user_by_id_def get_table_by_id_def
       find_None_iff)

theorem delete_keeps_references_witness:
  "references_ok booked \<and>
   get_user_by_id booked 1 \<noteq> None \<and> list_ex (\<lambda>b. user_id b = 1) (bookings booked) \<and>
   delete_user booked 1 = (Inl IntegrityError, booked) \<and>
   get_table_by_id booked 2 \<noteq> None \<and> \<not> list_ex (\<lambda>b. table_id b = 2) (bookings booked) \<and>
   delete_table booked 2 = (Inr True, booked\<lparr>tables := [T1]\<rparr>) \<and>
   get_user_by_id booked 7 = None \<and> delete_user booked 7 = (Inr False, booked) \<and>
   references_ok (snd (delete_user booked 1)) \<and> references_ok (snd (delete_table booked 2))"
proof -
  have r: "references_ok booked"
    by (simp add: references_ok_def get_user_by_id_def get_table_by_id_def example_defs)
  have u1: "get_user_by_id booked 1 \<noteq> None \<and> list_ex (\<lambda>b. user_id b = 1) (bookings booked)"
    by (simp add: get_user_by_id_def example_defs)
  have t2: "get_table_by_id booked 2 \<noteq> None \<and> \<not> list_ex (\<lambda>b. table_id b = 2) (bookings booked)"
    by (simp add: get_table_by_id_def example_defs)
  have u7: "get_user_by_id booked 7 = None"
    by (simp add: get_user_by_id_def example_defs)
  have f: "filter (\<lambda>t. t_id t \<noteq> 2) (tables booked) = [T1]"
    by (simp add: example_defs)
  show ?thesis
    using r u1 t2 u7 f delete_keeps_references [of booked 1 2]
      delete_keeps_references [of booked 7 2]
    by simp
qed

text \<open>
  Against C7 as stated: with the dinner booked by user 1 on table 1, neither the user
  nor the table can be deleted.
\<close>

theorem delete_referenced_rejected:
  "delete_user booked 1 = (Inl IntegrityError, booked) \<and>
   delete_table booked 1 = (Inl IntegrityError, booked)"
  by (simp add: delete_user_def delete_table_def example_defs)

section \<open>Updating a booking: results\<close>

lemma update_booking_sent:
  "update_booking s now bid kwargs =
     (if filter (\<lambda>(k, v). k \<notin> set [''id'', ''created_at'', ''updated_at'']) kwargs = []
      then (Inr False, s)
      else execute_update_bookings s bid (sent_data now kwargs))"
  by (simp add: update_booking_def sent_data_def Let_def)

lemma execute_update_bookings_True:
  "fst (execute_update_bookings s bid u) = Inr True \<Longrightarrow>
   find (\<lambda>b. b_id b = bid) (bookings s) \<noteq> None \<and>
   \<not> list_ex (\<lambda>(k, v). sql_column k = None) u \<and>
   distinct (map (\<lambda>(k, v). sql_column k) u) \<and>
   snd (execute_update_bookings s bid u) =
     s\<lparr>bookings := map (\<lambda>b. if b_id b = bid then set_clause (columns_of u) b else b)
                      (bookings s)\<rparr>"
  by (simp add: execute_update_bookings_def Let_def split: if_splits)

lemma execute_update_bookings_not_True:
  "fst (execute_update_bookings s bid u) \<noteq> Inr True \<Longrightarrow>
   snd (execute_update_bookings s bid u) = s"
  by (auto simp add: execute_update_bookings_def Let_def split: if_splits)

lemma update_booking_True:
  assumes "fst (update_booking s now bid kwargs) = Inr True"
  shows "find (\<lambda>b. b_id b = bid) (bookings s) \<noteq> None"
    and "\<not> list_ex (\<lambda>(k, v). sql_column k = None) (sent_data now kwargs)"
    and "distinct (map (\<lambda>(k, v). sql_column k) (sent_data now kwargs))"
    and "snd (update_booking s now bid kwargs) =
      s\<lparr>bookings := map (\<lambda>b. if b_id b = bid then new_row now kwargs b else b) (bookings s)\<rparr>"
proof -
  have e: "update_booking s now bid kwargs = execute_update_bookings s bid (sent_data now kwargs)"
    using assms by (simp add: update_booking_sent split: if_splits)
  then have t: "fst (execute_update_bookings s bid (sent_data now kwargs)) = Inr True"
    using assms by simp
  note h = execute_update_bookings_True [OF t]
  show "find (\<lambda>b. b_id b = bid) (bookings s) \<noteq> None"
    and "\<not> list_ex (\<lambda>(k, v). sql_column k = None) (sent_data now kwargs)"
    and "distinct (map (\<lambda>(k, v). sql_column k) (sent_data now kwargs))"
    using h by simp_all
  show "snd (update_booking s now bid kwargs) =
      s\<lparr>bookings := map (\<lambda>b. if b_id b = bid then new_row now kwargs b else b) (bookings s)\<rparr>"
    using h by (simp add: e new_row_def)
qed

lemma update_booking_not_True:
  "fst (update_booking s now bid kwargs) \<noteq> Inr True \<Longrightarrow>
   snd (update_booking s now bid kwargs) = s"
  by (simp add: update_booking_sent execute_update_bookings_not_True split: if_splits)





lemma sql_column_notes:
  "sql_column ''notes'' = Some ''notes''"
  by (simp add: sql_column_def sql_trim_def sql_space_def quoted_def lower_def
        booking_columns_def Let_def)



lemma sql_column_updated_at:
  "sql_column ''updated_at'' = Some ''updated_at''"
  by (simp add: sql_column_def sql_trim_def sql_space_def quoted_def lower_def
        booking_columns_def Let_def)

lemmas update_eval = update_booking_sent execute_update_bookings_def sql_column_notes
  sql_column_updated_at columns_of_def accepts_def has_nul_def nullable_def set_clause_def
  int_columns_def int4_def varchar20_def get_user_by_id_def get_table_by_id_def Let_def


text \<open>
  C10. \<^verbatim>\<open>update_booking\<close> drops the keys that are exactly \<^verbatim>\<open>id\<close>,
  \<^verbatim>\<open>created_at\<close> and \<^verbatim>\<open>updated_at\<close>: with the key \<^verbatim>\<open>id\<close> alone the call
  returns false and the store is as it was. A key the store reads as one of these columns
  without being that string is kept and assigned: with the key \<^verbatim>\<open>ID\<close> the dinner,
  booking 1, becomes booking 99, and with the key \<^verbatim>\<open>created_at\<close> followed by a
  space its creation time is replaced.
\<close>

theorem update_booking_assigns_identity:
  "update_booking booked 8 1 [(''id'', VInt 99)] = (Inr False, booked) \<and>
   update_booking booked 8 1 [(''ID'', VInt 99)] =
     (Inr True, booked\<lparr>bookings := [dinner\<lparr>b_id := 99, updated_at := Some 8\<rparr>]\<rparr>) \<and>
   update_booking booked 8 1 [(''created_at '', VDatetime 0)] =
     (Inr True, booked\<lparr>bookings := [dinner\<lparr>created_at := Some 0, updated_at := Some 8\<rparr>]\<rparr>)"
proof -
  have c1: "sql_column ''ID'' = Some ''id''"
    and c2: "sql_column ''created_at '' = Some ''created_at''"
    by (simp_all add: sql_column_def sql_trim_def sql_space_def quoted_def lower_def
          booking_columns_def Let_def)
  have s1: "sent_data 8 [(''ID'', VInt 99)] = [(''ID'', VInt 99), (''updated_at'', VDatetime 8)]"
    and s2: "sent_data 8 [(''created_at '', VDatetime 0)] =
      [(''created_at '', VDatetime 0), (''updated_at'', VDatetime 8)]"
    by (simp_all add: sent_data_def)
  have "update_booking booked 8 1 [(''id'', VInt 99)] = (Inr False, booked)"
    by (simp add: update_booking_def)
  moreover have "update_booking booked 8 1 [(''ID'', VInt 99)] =
     (Inr True, booked\<lparr>bookings := [dinner\<lparr>b_id := 99, updated_at := Some 8\<rparr>]\<rparr>)"
    by (simp add: update_eval s1 c1 example_defs)
  moreover have "update_booking booked 8 1 [(''created_at '', VDatetime 0)] =
     (Inr True, booked\<lparr>bookings := [dinner\<lparr>created_at := Some 0, updated_at := Some 8\<rparr>]\<rparr>)"
    by (simp add: update_eval s2 c2 example_defs)
  ultimately show ?thesis by simp
qed

text \<open>
  The notes normalisation looks for the key \<^verbatim>\<open>notes\<close> alone: under the key
  \<^verbatim>\<open>NOTES\<close> the store receives \<^verbatim>\<open>None\<close> as it is.
\<close>

lemma update_booking_key_spelling:
  "update_booking booked 8 1 [(''NOTES'', VNone)] =
     (Inr True, booked\<lparr>bookings := [dinner\<lparr>b_notes := None, updated_at := Some 8\<rparr>]\<rparr>)"
proof -
  have c: "sql_column ''NOTES'' = Some ''notes''"
    by (simp add: sql_column_def sql_trim_def sql_space_def quoted_def lower_def
          booking_columns_def Let_def)
  have s: "sent_data 8 [(''NOTES'', VNone)] = [(''NOTES'', VNone), (''updated_at'', VDatetime 8)]"
    by (simp add: sent_data_def)
  show ?thesis by (simp add: update_eval s c example_defs)
qed

section \<open>The no-overlap property\<close>

lemma no_overlapD:
  "no_overlap s \<Longrightarrow> b1 \<in> set (bookings s) \<Longrightarrow> b2 \<in> set (bookings s) \<Longrightarrow> b1 \<noteq> b2 \<Longrightarrow>
   table_id b1 = table_id b2 \<Longrightarrow> booking_date b1 = booking_date b2 \<Longrightarrow>
   status b1 \<noteq> ''cancelled'' \<Longrightarrow> status b2 \<noteq> ''cancelled'' \<Longrightarrow>
   \<not> (booking_start b1 < booking_end b2 \<and> booking_end b1 > booking_start b2)"
  unfolding no_overlap_def by blast

lemma no_overlap_same_bookings:
  "bookings s' = bookings s \<Longrightarrow> no_overlap s \<Longrightarrow> no_overlap s'"
  by (simp add: no_overlap_def)

lemma no_overlap_subset:
  assumes "no_overlap s" and "set (bookings s') \<subseteq> set (bookings s)"
  shows "no_overlap s'"
  unfolding no_overlap_def
proof (intro ballI impI)
  fix c1 c2
  assume c1: "c1 \<in> set (bookings s')" and c2: "c2 \<in> set (bookings s')"
    and h: "c1 \<noteq> c2 \<and> table_id c1 = table_id c2 \<and> booking_date c1 = booking_date c2 \<and>
            status c1 \<noteq> ''cancelled'' \<and> status c2 \<noteq> ''cancelled''"
  have "c1 \<in> set (bookings s)" "c2 \<in> set (bookings s)" using c1 c2 assms(2) by blast+
  then show "\<not> (booking_start c1 < booking_end c2 \<and> booking_end c1 > booking_start c2)"
    using no_overlapD [OF assms(1), of c1 c2] h by blast
qed

text \<open>
  Rows rewritten in place keep the property when each row is left as it was, ends up
  cancelled, or was not cancelled and keeps its table, date and time.
\<close>

lemma no_overlap_map:
  assumes "no_overlap s" and "bookings s' = map f (bookings s)"
    and slot: "\<And>b. b \<in> set (bookings s) \<Longrightarrow>
      f b = b \<or> status (f b) = ''cancelled'' \<or>
      (table_id (f b) = table_id b \<and> booking_date (f b) = booking_date b \<and>
       booking_time (f b) = booking_time b \<and> status b \<noteq> ''cancelled'')"
  shows "no_overlap s'"
  unfolding no_overlap_def
proof (intro ballI impI)
  fix c1 c2
  assume c1: "c1 \<in> set (bookings s')" and c2: "c2 \<in> set (bookings s')"
    and h: "c1 \<noteq> c2 \<and> table_id c1 = table_id c2 \<and> booking_date c1 = booking_date c2 \<and>
            status c1 \<noteq> ''cancelled'' \<and> status c2 \<noteq> ''cancelled''"
  from c1 assms(2) obtain b1 where b1: "b1 \<in> set (bookings s)" "c1 = f b1" by auto
  from c2 assms(2) obtain b2 where b2: "b2 \<in> set (bookings s)" "c2 = f b2" by auto
  have ne: "b1 \<noteq> b2" using h b1(2) b2(2) by blast
  have k1: "table_id c1 = table_id b1 \<and> booking_date c1 = booking_date b1 \<and>
      booking_time c1 = booking_time b1 \<and> status b1 \<noteq> ''cancelled''"
    using slot [OF b1(1)] h b1(2) by auto
  have k2: "table_id c2 = table_id b2 \<and> booking_date c2 = booking_date b2 \<and>
      booking_time c2 = booking_time b2 \<and> status b2 \<noteq> ''cancelled''"
    using slot [OF b2(1)] h b2(2) by auto
  have s1: "booking_start c1 = booking_start b1" "booking_end c1 = booking_end b1"
    using k1 by (simp_all add: booking_start_def booking_end_def)
  have s2: "booking_start c2 = booking_start b2" "booking_end c2 = booking_end b2"
    using k2 by (simp_all add: booking_start_def booking_end_def)
  have "table_id b1 = table_id b2" "booking_date b1 = booking_date b2"
    "status b1 \<noteq> ''cancelled''" "status b2 \<noteq> ''cancelled''"
    using h k1 k2 by simp_all
  from no_overlapD [OF assms(1) b1(1) b2(1) ne this]
  show "\<not> (booking_start c1 < booking_end c2 \<and> booking_end c1 > booking_start c2)"
    by (simp add: s1 s2)
qed

lemma check_True_free:
  assumes "check_table_availability s tid d t dur = Inr True"
    and "e \<in> set (bookings s)" and "table_id e = tid" and "booking_date e = d"
    and "status e \<noteq> ''cancelled''"
  shows "\<not> (booking_start e < combine d t + hours dur \<and> booking_start e + hours 2 > combine d t)"
proof -
  have "count_conflicts s tid d (combine d t + hours dur) (combine d t) = 0"
    using assms(1)
    by (auto simp add: check_table_availability_def timedelta_def datetime_add_def hours_def
          Let_def split: option.splits if_splits sum.splits)
  then have "\<not> overlap_where tid d (combine d t + hours dur) (combine d t) e"
    using assms(2) by (simp add: count_conflicts_zero)
  then show ?thesis
    using assms(3-5) by (simp add: overlap_where_def booking_start_def)
qed

lemma no_overlap_create:
  assumes "no_overlap s" and "2 \<le> dur"
  shows "no_overlap (snd (create_booking s now uid tid d t g st n dur))"
proof (cases "fst (create_booking s now uid tid d t g st n dur)")
  case (Inl e)
  from create_booking_Inl_store [OF Inl]
  have "bookings (snd (create_booking s now uid tid d t g st n dur)) = bookings s" by simp
  from this assms(1) show ?thesis by (rule no_overlap_same_bookings)
next
  case (Inr b)
  let ?s' = "snd (create_booking s now uid tid d t g st n dur)"
  let ?b = "b\<lparr>status := take 20 (status b)\<rparr>"
  have ck: "check_table_availability s tid d t dur = Inr True"
    using create_booking_Inr [OF Inr] by simp
  note row = create_booking_Inr_row [OF Inr]
  have bs: "bookings ?s' = bookings s @ [?b]" using row by simp
  have tb: "table_id ?b = tid" "booking_date ?b = d" using row by simp_all
  have sb: "booking_start ?b = combine d t"
    using row by (simp add: booking_start_def)
  have le: "hours 2 \<le> hours dur" using assms(2) by (simp add: hours_def)
  have new_old: "\<not> (booking_start e < booking_end ?b \<and> booking_end e > booking_start ?b)"
    if "e \<in> set (bookings s)" "table_id e = table_id ?b" "booking_date e = booking_date ?b"
       "status e \<noteq> ''cancelled''" for e
  proof -
    have "\<not> (booking_start e < combine d t + hours dur \<and> booking_start e + hours 2 > combine d t)"
      using check_True_free [OF ck that(1)] that(2-4) tb by simp
    then show ?thesis using le by (auto simp add: booking_end_def sb)
  qed
  show ?thesis
    unfolding no_overlap_def
  proof (intro ballI impI)
    fix c1 c2
    assume c1: "c1 \<in> set (bookings ?s')" and c2: "c2 \<in> set (bookings ?s')"
      and h: "c1 \<noteq> c2 \<and> table_id c1 = table_id c2 \<and> booking_date c1 = booking_date c2 \<and>
            status c1 \<noteq> ''cancelled'' \<and> status c2 \<noteq> ''cancelled''"
    from c1 bs have c1': "c1 \<in> set (bookings s) \<or> c1 = ?b" by auto
    from c2 bs have c2': "c2 \<in> set (bookings s) \<or> c2 = ?b" by auto
    show "\<not> (booking_start c1 < booking_end c2 \<and> booking_end c1 > booking_start c2)"
    proof (cases "c1 = ?b")
      case True
      then have m2: "c2 \<in> set (bookings s)" using c2' h by blast
      have "\<not> (booking_start c2 < booking_end ?b \<and> booking_end c2 > booking_start ?b)"
        using new_old [OF m2] h True by simp
      then show ?thesis using True by (simp add: conj_commute)
    next
      case False
      then have m1: "c1 \<in> set (bookings s)" using c1' by simp
      show ?thesis
      proof (cases "c2 = ?b")
        case True
        have "\<not> (booking_start c1 < booking_end ?b \<and> booking_end c1 > booking_start ?b)"
          using new_old [OF m1] h True by simp
        then show ?thesis using True by simp
      next
        case False
        then have m2: "c2 \<in> set (bookings s)" using c2' by simp
        from no_overlapD [OF assms(1) m1 m2] h show ?thesis by blast
      qed
    qed
  qed
qed

lemma no_overlap_delete:
  assumes "no_overlap s"
  shows "no_overlap (snd (delete_booking s bid))"
proof -
  have "set (bookings (snd (delete_booking s bid))) \<subseteq> set (bookings s)"
    by (auto simp add: delete_booking_def)
  from no_overlap_subset [OF assms this] show ?thesis .
qed

lemma no_overlap_update:
  assumes "no_overlap s"
    and slot: "\<And>b. b \<in> set (bookings s) \<Longrightarrow> b_id b = bid \<Longrightarrow>
      status (new_row now kwargs b) = ''cancelled'' \<or>
      (table_id (new_row now kwargs b) = table_id b \<and>
       booking_date (new_row now kwargs b) = booking_date b \<and>
       booking_time (new_row now kwargs b) = booking_time b \<and>
       status b \<noteq> ''cancelled'')"
  shows "no_overlap (snd (update_booking s now bid kwargs))"
proof (cases "fst (update_booking s now bid kwargs) = Inr True")
  case True
  let ?f = "\<lambda>b. if b_id b = bid then new_row now kwargs b else b"
  have m: "bookings (snd (update_booking s now bid kwargs)) = map ?f (bookings s)"
    using update_booking_True(4) [OF True] by simp
  show ?thesis
  proof (rule no_overlap_map [OF assms(1) m])
    fix b assume "b \<in> set (bookings s)"
    then show "?f b = b \<or> status (?f b) = ''cancelled'' \<or>
      (table_id (?f b) = table_id b \<and> booking_date (?f b) = booking_date b \<and>
       booking_time (?f b) = booking_time b \<and> status b \<noteq> ''cancelled'')"
      using slot [of b] by auto
  qed
next
  case False
  then have "snd (update_booking s now bid kwargs) = s"
    by (rule update_booking_not_True)
  then show ?thesis using assms(1) by simp
qed

lemma no_overlap_exec:
  assumes "admits s op" and "no_overlap s"
  shows "no_overlap (exec op s)"
proof (cases op)
  case (CreateBooking now uid tid d t g st n dur)
  then show ?thesis using assms by (simp add: no_overlap_create)
next
  case (UpdateBooking now bid kwargs)
  have "no_overlap (snd (update_booking s now bid kwargs))"
  proof (rule no_overlap_update [OF assms(2)])
    fix b assume "b \<in> set (bookings s)" "b_id b = bid"
    then show "status (new_row now kwargs b) = ''cancelled'' \<or>
      (table_id (new_row now kwargs b) = table_id b \<and>
       booking_date (new_row now kwargs b) = booking_date b \<and>
       booking_time (new_row now kwargs b) = booking_time b \<and>
       status b \<noteq> ''cancelled'')"
      using assms(1) UpdateBooking by (auto simp add: list_all_iff)
  qed
  then show ?thesis using UpdateBooking by simp
next
  case (DeleteBooking bid)
  then show ?thesis using assms(2) by (simp add: no_overlap_delete)
qed

text \<open>
  C1, as the code has it. The interval of a stored booking is two hours from its start,
  as the overlap query computes it. From a store in which no two bookings that are not
  cancelled overlap on the same table and date, every run of calls that keep to the
  two-hour slots leads to such a store: \<^verbatim>\<open>create_booking\<close> with a duration of two
  hours or more, \<^verbatim>\<open>delete_booking\<close>, and \<^verbatim>\<open>update_booking\<close> with plain column names
  and values of the columns' types that leaves the booking cancelled, or leaves a booking
  that was not cancelled on its table, date and time.
\<close>

theorem no_overlap_preserved:
  "no_overlap s \<Longrightarrow> admits_all ops s \<Longrightarrow> no_overlap (run ops s)"
  unfolding run_def
proof (induction ops arbitrary: s)
  case Nil
  then show ?case by simp
next
  case (Cons op ops)
  have "no_overlap (exec op s)" using Cons.prems by (simp add: no_overlap_exec)
  then show ?case using Cons.IH [of "exec op s"] Cons.prems(2) by simp
qed

lemma sql_column_slot:
  "sql_column ''guests_count'' = Some ''guests_count''"
  "sql_column ''status'' = Some ''status''"
  "sql_column ''booking_time'' = Some ''booking_time''"
  "sql_column ''booking_date'' = Some ''booking_date''"
  "sql_column ''table_id'' = Some ''table_id''"
  by (simp_all add: sql_column_def sql_trim_def sql_space_def quoted_def lower_def
        booking_columns_def Let_def)

lemma plain_key_slot:
  "plain_key ''guests_count''" "plain_key ''status''" "plain_key ''booking_time''"
  by (simp_all add: plain_key_def sql_trim_def sql_space_def quoted_def Let_def)

lemma sent_data_slot:
  "sent_data now [(''guests_count'', v), (''status'', w)] =
     [(''guests_count'', v), (''status'', w), (''updated_at'', VDatetime now)]"
  "sent_data now [(''booking_time'', v), (''status'', w)] =
     [(''booking_time'', v), (''status'', w), (''updated_at'', VDatetime now)]"
  "sent_data now [(''booking_time'', v)] = [(''booking_time'', v), (''updated_at'', VDatetime now)]"
  "sent_data now [(''status'', w)] = [(''status'', w), (''updated_at'', VDatetime now)]"
  "sent_data now [(''booking_date'', v)] = [(''booking_date'', v), (''updated_at'', VDatetime now)]"
  "sent_data now [(''table_id'', v)] = [(''table_id'', v), (''updated_at'', VDatetime now)]"
  by (simp_all add: sent_data_def)

lemmas slot_eval = update_eval sent_data_slot sql_column_slot example_defs

text \<open>
  An evening in the restaurant: the dinner at 18:00 for two hours, a supper at 20:00
  for three, a third booking at 19:00 that is refused, the dinner confirmed for four
  guests, the supper saved again with its own time, and a delete of a booking that does
  not exist. The two bookings stand side by side at the end.
\<close>

theorem no_overlap_preserved_witness:
  "no_overlap restaurant \<and>
   admits_all
     [CreateBooking 5 1 1 739403 (clock 18) 2 ''pending'' None 2,
      CreateBooking 6 1 1 739403 (clock 20) 2 ''pending'' None 3,
      CreateBooking 7 1 1 739403 (clock 19) 2 ''pending'' None 2,
      UpdateBooking 8 1 [(''guests_count'', VInt 4), (''status'', VStr ''confirmed'')],
      UpdateBooking 9 2 [(''booking_time'', VTime (clock 20)), (''status'', VStr ''pending'')],
      DeleteBooking 7] restaurant \<and>
   bookings (run
     [CreateBooking 5 1 1 739403 (clock 18) 2 ''pending'' None 2,
      CreateBooking 6 1 1 739403 (clock 20) 2 ''pending'' None 3,
      CreateBooking 7 1 1 739403 (clock 19) 2 ''pending'' None 2,
      UpdateBooking 8 1 [(''guests_count'', VInt 4), (''status'', VStr ''confirmed'')],
      UpdateBooking 9 2 [(''booking_time'', VTime (clock 20)), (''status'', VStr ''pending'')],
      DeleteBooking 7] restaurant) =
     [dinner\<lparr>guests_count := 4, status := ''confirmed'', updated_at := Some 8\<rparr>,
      supper\<lparr>updated_at := Some 9\<rparr>] \<and>
   no_overlap (run
     [CreateBooking 5 1 1 739403 (clock 18) 2 ''pending'' None 2,
      CreateBooking 6 1 1 739403 (clock 20) 2 ''pending'' None 3,
      CreateBooking 7 1 1 739403 (clock 19) 2 ''pending'' None 2,
      UpdateBooking 8 1 [(''guests_count'', VInt 4), (''status'', VStr ''confirmed'')],
      UpdateBooking 9 2 [(''booking_time'', VTime (clock 20)), (''status'', VStr ''pending'')],
      DeleteBooking 7] restaurant)"
proof -
  let ?confirmed = "full\<lparr>bookings :=
    [dinner\<lparr>guests_count := 4, status := ''confirmed'', updated_at := Some 8\<rparr>, supper]\<rparr>"
  let ?saved = "full\<lparr>bookings :=
    [dinner\<lparr>guests_count := 4, status := ''confirmed'', updated_at := Some 8\<rparr>,
     supper\<lparr>updated_at := Some 9\<rparr>]\<rparr>"
  let ?ops = "[CreateBooking 5 1 1 739403 (clock 18) 2 ''pending'' None 2,
      CreateBooking 6 1 1 739403 (clock 20) 2 ''pending'' None 3,
      CreateBooking 7 1 1 739403 (clock 19) 2 ''pending'' None 2,
      UpdateBooking 8 1 [(''guests_count'', VInt 4), (''status'', VStr ''confirmed'')],
      UpdateBooking 9 2 [(''booking_time'', VTime (clock 20)), (''status'', VStr ''pending'')],
      DeleteBooking 7]"
  have e1: "snd (create_booking restaurant 5 1 1 739403 (clock 18) 2 ''pending'' None 2) = booked"
    by (simp add: example_defs operation_defs)
  have e2: "snd (create_booking booked 6 1 1 739403 (clock 20) 2 ''pending'' None 3) = full"
    by (simp add: example_defs operation_defs)
  have e3: "snd (create_booking full 7 1 1 739403 (clock 19) 2 ''pending'' None 2) = full"
    by (simp add: example_defs operation_defs)
  have e4: "snd (update_booking full 8 1
      [(''guests_count'', VInt 4), (''status'', VStr ''confirmed'')]) = ?confirmed"
    by (simp add: slot_eval)
  have e5: "snd (update_booking ?confirmed 9 2
      [(''booking_time'', VTime (clock 20)), (''status'', VStr ''pending'')]) = ?saved"
    by (simp add: slot_eval)
  have e6: "snd (delete_booking ?saved 7) = ?saved"
    by (simp add: delete_booking_def example_defs)
  have a4: "admits full
      (UpdateBooking 8 1 [(''guests_count'', VInt 4), (''status'', VStr ''confirmed'')])"
    by (simp add: plain_key_slot sql_column_slot new_row_def sent_data_slot columns_of_def
          sql_column_updated_at set_clause_def int_columns_def example_defs)
  have a5: "admits ?confirmed
      (UpdateBooking 9 2 [(''booking_time'', VTime (clock 20)), (''status'', VStr ''pending'')])"
    by (simp add: plain_key_slot sql_column_slot new_row_def sent_data_slot columns_of_def
          sql_column_updated_at set_clause_def int_columns_def example_defs)
  have n: "no_overlap restaurant"
    by (simp add: no_overlap_def restaurant_def)
  have a: "admits_all ?ops restaurant"
    using a4 a5 by (simp add: e1 e2 e3 e4 e5)
  have r: "run ?ops restaurant = ?saved"
    by (simp add: run_def e1 e2 e3 e4 e5 e6)
  have "no_overlap (run ?ops restaurant)"
    using n a by (rule no_overlap_preserved)
  then show ?thesis using n a r by simp
qed

text \<open>
  The claim as it is written fails, for \<^verbatim>\<open>update_booking\<close> makes no availability
  check. After the dinner at 18:00 and the supper at 20:00, an update moves the supper to
  19:00 and the two overlap. A second dinner booked for the next day is moved onto the
  day of the first. The dinner is moved to table T2, its slot on T1 is booked again, and
  the second booking is moved to T2 as well. A supper cancelled and moved to 19:00
  overlaps the dinner once an update sets its status back to pending. And with the
  two-hour interval of the store, a booking created at 17:00 for one hour overlaps the
  dinner: the check compared the one hour asked for, and the store keeps no duration.
\<close>

theorem booking_operations_break_no_overlap:
  "no_overlap restaurant \<and>
   bookings (run
     [CreateBooking 5 1 1 739403 (clock 18) 2 ''pending'' None 2,
      CreateBooking 6 1 1 739403 (clock 20) 2 ''pending'' None 2,
      UpdateBooking 8 2 [(''booking_time'', VTime (clock 19))]] restaurant) =
     [dinner, supper\<lparr>booking_time := clock 19, updated_at := Some 8\<rparr>] \<and>
   \<not> no_overlap (run
     [CreateBooking 5 1 1 739403 (clock 18) 2 ''pending'' None 2,
      CreateBooking 6 1 1 739403 (clock 20) 2 ''pending'' None 2,
      UpdateBooking 8 2 [(''booking_time'', VTime (clock 19))]] restaurant) \<and>
   bookings (run
     [CreateBooking 5 1 1 739403 (clock 18) 2 ''pending'' None 2,
      CreateBooking 6 1 1 739404 (clock 18) 2 ''pending'' None 2,
      UpdateBooking 8 2 [(''booking_date'', VDate 739403)]] restaurant) =
     [dinner, dinner\<lparr>b_id := 2, created_at := Some 6, updated_at := Some 8\<rparr>] \<and>
   \<not> no_overlap (run
     [CreateBooking 5 1 1 739403 (clock 18) 2 ''pending'' None 2,
      CreateBooking 6 1 1 739404 (clock 18) 2 ''pending'' None 2,
      UpdateBooking 8 2 [(''booking_date'', VDate 739403)]] restaurant) \<and>
   bookings (run
     [CreateBooking 5 1 1 739403 (clock 18) 2 ''pending'' None 2,
      UpdateBooking 6 1 [(''table_id'', VInt 2)],
      CreateBooking 7 1 1 739403 (clock 18) 2 ''pending'' None 2,
      UpdateBooking 8 2 [(''table_id'', VInt 2)]] restaurant) =
     [dinner\<lparr>table_id := 2, updated_at := Some 6\<rparr>,
      dinner\<lparr>b_id := 2, table_id := 2, created_at := Some 7, updated_at := Some 8\<rparr>] \<and>
   \<not> no_overlap (run
     [CreateBooking 5 1 1 739403 (clock 18) 2 ''pending'' None 2,
      UpdateBooking 6 1 [(''table_id'', VInt 2)],
      CreateBooking 7 1 1 739403 (clock 18) 2 ''pending'' None 2,
      UpdateBooking 8 2 [(''table_id'', VInt 2)]] restaurant) \<and>
   bookings (run
     [CreateBooking 5 1 1 739403 (clock 18) 2 ''pending'' None 2,
      CreateBooking 6 1 1 739403 (clock 20) 2 ''pending'' None 2,
      UpdateBooking 8 2 [(''booking_time'', VTime (clock 19)), (''status'', VStr ''cancelled'')],
      UpdateBooking 9 2 [(''status'', VStr ''pending'')]] restaurant) =
     [dinner, supper\<lparr>booking_time := clock 19, updated_at := Some 9\<rparr>] \<and>
   \<not> no_overlap (run
     [CreateBooking 5 1 1 739403 (clock 18) 2 ''pending'' None 2,
      CreateBooking 6 1 1 739403 (clock 20) 2 ''pending'' None 2,
      UpdateBooking 8 2 [(''booking_time'', VTime (clock 19)), (''status'', VStr ''cancelled'')],
      UpdateBooking 9 2 [(''status'', VStr ''pending'')]] restaurant) \<and>
   bookings (run
     [CreateBooking 5 1 1 739403 (clock 18) 2 ''pending'' None 2,
      CreateBooking 6 1 1 739403 (clock 17) 2 ''pending'' None 1] restaurant) =
     [dinner, supper\<lparr>booking_time := clock 17\<rparr>] \<and>
   \<not> no_overlap (run
     [CreateBooking 5 1 1 739403 (clock 18) 2 ''pending'' None 2,
      CreateBooking 6 1 1 739403 (clock 17) 2 ''pending'' None 1] restaurant)"
proof -
  let ?moved = "full\<lparr>bookings := [dinner, supper\<lparr>booking_time := clock 19, updated_at := Some 8\<rparr>]\<rparr>"
  let ?cancelled = "full\<lparr>bookings :=
    [dinner, supper\<lparr>booking_time := clock 19, status := ''cancelled'', updated_at := Some 8\<rparr>]\<rparr>"
  let ?revived = "full\<lparr>bookings := [dinner, supper\<lparr>booking_time := clock 19, updated_at := Some 9\<rparr>]\<rparr>"
  let ?early = "full\<lparr>bookings := [dinner, supper\<lparr>booking_time := clock 17\<rparr>]\<rparr>"
  let ?morrow = "full\<lparr>bookings := [dinner, dinner\<lparr>b_id := 2, booking_date := 739404,
    created_at := Some 6, updated_at := Some 6\<rparr>]\<rparr>"
  let ?sameday = "full\<lparr>bookings := [dinner, dinner\<lparr>b_id := 2, created_at := Some 6,
    updated_at := Some 8\<rparr>]\<rparr>"
  let ?aside = "booked\<lparr>bookings := [dinner\<lparr>table_id := 2, updated_at := Some 6\<rparr>]\<rparr>"
  let ?again = "full\<lparr>bookings := [dinner\<lparr>table_id := 2, updated_at := Some 6\<rparr>,
    dinner\<lparr>b_id := 2, created_at := Some 7, updated_at := Some 7\<rparr>]\<rparr>"
  let ?both = "full\<lparr>bookings := [dinner\<lparr>table_id := 2, updated_at := Some 6\<rparr>,
    dinner\<lparr>b_id := 2, table_id := 2, created_at := Some 7, updated_at := Some 8\<rparr>]\<rparr>"
  have e1: "snd (create_booking restaurant 5 1 1 739403 (clock 18) 2 ''pending'' None 2) = booked"
    by (simp add: example_defs operation_defs)
  have e2: "snd (create_booking booked 6 1 1 739403 (clock 20) 2 ''pending'' None 2) = full"
    by (simp add: example_defs operation_defs)
  have e3: "snd (update_booking full 8 2 [(''booking_time'', VTime (clock 19))]) = ?moved"
    by (simp add: slot_eval)
  have e4: "snd (update_booking full 8 2
      [(''booking_time'', VTime (clock 19)), (''status'', VStr ''cancelled'')]) = ?cancelled"
    by (simp add: slot_eval)
  have e5: "snd (update_booking ?cancelled 9 2 [(''status'', VStr ''pending'')]) = ?revived"
    by (simp add: slot_eval)
  have e6: "snd (create_booking booked 6 1 1 739403 (clock 17) 2 ''pending'' None 1) = ?early"
    by (simp add: example_defs operation_defs)
  have d1: "snd (create_booking booked 6 1 1 739404 (clock 18) 2 ''pending'' None 2) = ?morrow"
    by (simp add: example_defs operation_defs)
  have d2: "snd (update_booking ?morrow 8 2 [(''booking_date'', VDate 739403)]) = ?sameday"
    by (simp add: slot_eval)
  have t1: "snd (update_booking booked 6 1 [(''table_id'', VInt 2)]) = ?aside"
    by (simp add: slot_eval)
  have t2: "snd (create_booking ?aside 7 1 1 739403 (clock 18) 2 ''pending'' None 2) = ?again"
    by (simp add: example_defs operation_defs)
  have t3: "snd (update_booking ?again 8 2 [(''table_id'', VInt 2)]) = ?both"
    by (simp add: slot_eval)
  have n: "no_overlap restaurant"
    by (simp add: no_overlap_def restaurant_def)
  have n1: "\<not> no_overlap ?moved" and n2: "\<not> no_overlap ?revived" and n3: "\<not> no_overlap ?early"
    and n4: "\<not> no_overlap ?sameday" and n5: "\<not> no_overlap ?both"
    by (simp_all add: no_overlap_def booking_start_def booking_end_def combine_def hours_def
          example_defs)
  have r1: "run
     [CreateBooking 5 1 1 739403 (clock 18) 2 ''pending'' None 2,
      CreateBooking 6 1 1 739403 (clock 20) 2 ''pending'' None 2,
      UpdateBooking 8 2 [(''booking_time'', VTime (clock 19))]] restaurant = ?moved"
    by (simp add: run_def e1 e2 e3)
  have r2: "run
     [CreateBooking 5 1 1 739403 (clock 18) 2 ''pending'' None 2,
      CreateBooking 6 1 1 739404 (clock 18) 2 ''pending'' None 2,
      UpdateBooking 8 2 [(''booking_date'', VDate 739403)]] restaurant = ?sameday"
    by (simp add: run_def e1 d1 d2)
  have r3: "run
     [CreateBooking 5 1 1 739403 (clock 18) 2 ''pending'' None 2,
      UpdateBooking 6 1 [(''table_id'', VInt 2)],
      CreateBooking 7 1 1 739403 (clock 18) 2 ''pending'' None 2,
      UpdateBooking 8 2 [(''table_id'', VInt 2)]] restaurant = ?both"
    by (simp add: run_def e1 t1 t2 t3)
  have r4: "run
     [CreateBooking 5 1 1 739403 (clock 18) 2 ''pending'' None 2,
      CreateBooking 6 1 1 739403 (clock 20) 2 ''pending'' None 2,
      UpdateBooking 8 2 [(''booking_time'', VTime (clock 19)), (''status'', VStr ''cancelled'')],
      UpdateBooking 9 2 [(''status'', VStr ''pending'')]] restaurant = ?revived"
    by (simp add: run_def e1 e2 e4 e5)
  have r5: "run
     [CreateBooking 5 1 1 739403 (clock 18) 2 ''pending'' None 2,
      CreateBooking 6 1 1 739403 (clock 17) 2 ''pending'' None 1] restaurant = ?early"
    by (simp add: run_def e1 e6)
  show ?thesis
    unfolding r1 r2 r3 r4 r5 using n n1 n2 n3 n4 n5 by simp
qed


end
